theory Spec2Isabelle
  imports Complex_Main "HOL-Library.AList"
begin

section \<open>JavaScript numbers\<close>

text \<open>
  The loader computes with JavaScript numbers: byte counters, durations and times.
  A number is modelled with the special values of IEEE 754 made explicit, since the
  statistics merge of \<open>updateStatsFromPart\<close> divides and may divide by zero.
  A finite value is an exact rational (rounding to 53 bits and overflow are not
  modelled); \<open>Num 0\<close> is the positive zero and \<open>NegZero\<close> the negative one.
\<close>

datatype jsnum = Num rat | NegZero | PosInf | NegInf | NaN

fun js_is_nan :: "jsnum \<Rightarrow> bool" where
  "js_is_nan NaN = True"
| "js_is_nan _ = False"

fun js_is_inf :: "jsnum \<Rightarrow> bool" where
  "js_is_inf PosInf = True"
| "js_is_inf NegInf = True"
| "js_is_inf _ = False"

fun js_is_zero :: "jsnum \<Rightarrow> bool" where
  "js_is_zero (Num x) = (x = 0)"
| "js_is_zero NegZero = True"
| "js_is_zero _ = False"

text \<open>\<open>Number.isFinite\<close> of a number.\<close>

fun js_is_finite :: "jsnum \<Rightarrow> bool" where
  "js_is_finite (Num x) = True"
| "js_is_finite NegZero = True"
| "js_is_finite _ = False"

text \<open>The sign bit, and the rational value of a finite number.\<close>

fun js_negative :: "jsnum \<Rightarrow> bool" where
  "js_negative (Num x) = (x < 0)"
| "js_negative NegZero = True"
| "js_negative NegInf = True"
| "js_negative _ = False"

fun js_val :: "jsnum \<Rightarrow> rat" where
  "js_val (Num x) = x"
| "js_val _ = 0"

definition js_signed_inf :: "bool \<Rightarrow> jsnum" where
  "js_signed_inf neg = (if neg then NegInf else PosInf)"

definition js_signed_zero :: "bool \<Rightarrow> jsnum" where
  "js_signed_zero neg = (if neg then NegZero else Num 0)"

text \<open>Truthiness of a number (\<open>if (x)\<close>, \<open>x || 0\<close>): false for both zeros and NaN.\<close>

definition js_truthy :: "jsnum \<Rightarrow> bool" where
  "js_truthy x = (\<not> js_is_zero x \<and> \<not> js_is_nan x)"

fun js_neg :: "jsnum \<Rightarrow> jsnum" where
  "js_neg (Num x) = (if x = 0 then NegZero else Num (- x))"
| "js_neg NegZero = Num 0"
| "js_neg PosInf = NegInf"
| "js_neg NegInf = PosInf"
| "js_neg NaN = NaN"

fun js_add :: "jsnum \<Rightarrow> jsnum \<Rightarrow> jsnum" where
  "js_add NaN _ = NaN"
| "js_add _ NaN = NaN"
| "js_add PosInf NegInf = NaN"
| "js_add NegInf PosInf = NaN"
| "js_add PosInf _ = PosInf"
| "js_add _ PosInf = PosInf"
| "js_add NegInf _ = NegInf"
| "js_add _ NegInf = NegInf"
| "js_add NegZero y = y"
| "js_add x NegZero = x"
| "js_add (Num x) (Num y) = Num (x + y)"

definition js_sub :: "jsnum \<Rightarrow> jsnum \<Rightarrow> jsnum" where
  "js_sub a b = js_add a (js_neg b)"

definition js_mul :: "jsnum \<Rightarrow> jsnum \<Rightarrow> jsnum" where
  "js_mul a b =
     (if js_is_nan a \<or> js_is_nan b then NaN
      else if (js_is_inf a \<and> js_is_zero b) \<or> (js_is_zero a \<and> js_is_inf b) then NaN
      else if js_is_inf a \<or> js_is_inf b then js_signed_inf (js_negative a \<noteq> js_negative b)
      else if js_is_zero a \<or> js_is_zero b then js_signed_zero (js_negative a \<noteq> js_negative b)
      else Num (js_val a * js_val b))"

definition js_div :: "jsnum \<Rightarrow> jsnum \<Rightarrow> jsnum" where
  "js_div a b =
     (if js_is_nan a \<or> js_is_nan b then NaN
      else if (js_is_inf a \<and> js_is_inf b) \<or> (js_is_zero a \<and> js_is_zero b) then NaN
      else if js_is_inf a \<or> js_is_zero b then js_signed_inf (js_negative a \<noteq> js_negative b)
      else if js_is_inf b \<or> js_is_zero a then js_signed_zero (js_negative a \<noteq> js_negative b)
      else Num (js_val a / js_val b))"

text \<open>
  \<open>Math.round\<close>: the nearest integer, a tie going towards plus infinity; a value in
  \<open>[-0.5, 0)\<close> gives the negative zero; NaN, the infinities and the zeros are returned
  as they are.
\<close>

fun Math_round :: "jsnum \<Rightarrow> jsnum" where
  "Math_round (Num x) = (if x < 0 \<and> - (1 / 2) \<le> x then NegZero else Num (of_int \<lfloor>x + 1 / 2\<rfloor>))"
| "Math_round x = x"

text \<open>The comparison \<open>a < b\<close>: false when an operand is NaN; the two zeros are equal.\<close>

fun js_lt :: "jsnum \<Rightarrow> jsnum \<Rightarrow> bool" where
  "js_lt NaN _ = False"
| "js_lt _ NaN = False"
| "js_lt _ NegInf = False"
| "js_lt NegInf _ = True"
| "js_lt PosInf _ = False"
| "js_lt _ PosInf = True"
| "js_lt a b = (js_val a < js_val b)"

text \<open>\<open>Math.max\<close> of two numbers: NaN when an operand is NaN; the positive zero is the larger zero.\<close>

definition Math_max :: "jsnum \<Rightarrow> jsnum \<Rightarrow> jsnum" where
  "Math_max a b =
     (if js_is_nan a \<or> js_is_nan b then NaN
      else if js_lt a b then b
      else if js_lt b a then a
      else if a = NegZero then b else a)"

text \<open>\<open>targetBufferTime || 0\<close> on a \<open>number | null\<close>.\<close>

fun js_or_zero :: "jsnum option \<Rightarrow> jsnum" where
  "js_or_zero None = Num 0"
| "js_or_zero (Some x) = (if js_truthy x then x else Num 0)"


section \<open>Data model\<close>

text \<open>
  Fragments are objects compared by reference (\<open>part.fragment === frag\<close>) and mutated
  in place (\<open>frag.loader\<close>, \<open>frag.stats\<close>): a fragment is named by its address and its
  fields live in a store. A transport instance (\<open>Loader\<close>) is named by the order of its
  construction.
\<close>

type_synonym frag_id = nat
type_synonym loader_id = nat

record HlsProgressivePerformanceTiming =
  loading_start :: jsnum
  loading_first :: jsnum
  loading_end :: jsnum

record LoaderStats =
  loaded :: jsnum
  total :: jsnum
  aborted :: bool
  loading :: HlsProgressivePerformanceTiming

record Fragment =
  frag_url :: string
  frag_start :: jsnum
  frag_duration :: jsnum
  frag_byteRangeStartOffset :: "jsnum option"
  frag_byteRangeEndOffset :: "jsnum option"
  frag_stats :: LoaderStats
  frag_loader :: "loader_id option"

record Part =
  part_index :: nat
  part_url :: string
  part_start :: jsnum
  part_duration :: jsnum
  part_independent :: bool
  part_fragment :: frag_id
  part_byteRangeStartOffset :: "jsnum option"
  part_byteRangeEndOffset :: "jsnum option"
  part_stats :: LoaderStats


section \<open>Independent-part selection\<close>

text \<open>
  The \<open>for\<close> loop of \<open>findIndependentPart\<close>, with its two variables \<open>i\<close> and
  \<open>independentPart\<close>; the result is \<open>-1\<close> or a list index.
\<close>

function findIndependentPart_loop :: "Part list \<Rightarrow> frag_id \<Rightarrow> jsnum \<Rightarrow> nat \<Rightarrow> int \<Rightarrow> int" where
  "findIndependentPart_loop partList frag targetBufferTime i independentPart =
     (if i < length partList then
        (let part = partList ! i in
         if js_lt targetBufferTime (part_start part) then independentPart
         else findIndependentPart_loop partList frag targetBufferTime (i + 1)
                (if part_independent part \<and> part_fragment part = frag then int i
                 else independentPart))
      else independentPart)"
  by pat_completeness auto
termination
  by (relation "measure (\<lambda>(partList, frag, targetBufferTime, i, independentPart). length partList - i)") auto

definition findIndependentPart :: "Part list \<Rightarrow> frag_id \<Rightarrow> jsnum \<Rightarrow> int" where
  "findIndependentPart partList frag targetBufferTime =
     findIndependentPart_loop partList frag targetBufferTime 0 (- 1)"


section \<open>Statistics merge\<close>

definition updateStatsFromPart :: "Fragment \<Rightarrow> Part \<Rightarrow> Fragment" where
  "updateStatsFromPart frag part =
     (let fragStats = frag_stats frag;
          partStats = part_stats part;
          partTotal = total partStats;
          fragLoaded = js_add (loaded fragStats) (loaded partStats);
          fragTotal =
            (if js_truthy partTotal then
               (let estLoadedParts = Math_round (js_div fragLoaded partTotal);
                    estTotalParts = Math_round (js_div (frag_duration frag) (part_duration part));
                    estRemainingParts = js_sub estTotalParts estLoadedParts
                in js_add (js_add fragLoaded (total partStats))
                     (js_mul estRemainingParts (Math_round (js_div fragLoaded estLoadedParts))))
             else total fragStats);
          fragLoading = loading fragStats;
          fragLoading' =
            (if js_truthy (loading_start fragLoading) then
               fragLoading
                 \<lparr> loading_start := js_add (loading_start fragLoading)
                     (js_sub (loading_start (loading partStats)) (loading_end fragLoading)),
                   loading_first := js_add (loading_first fragLoading)
                     (js_sub (loading_first (loading partStats)) (loading_end fragLoading)) \<rparr>
             else
               fragLoading
                 \<lparr> loading_start := loading_start (loading partStats),
                   loading_first := loading_first (loading partStats) \<rparr>)
      in frag \<lparr> frag_stats := fragStats
           \<lparr> loaded := fragLoaded, total := fragTotal,
             loading := fragLoading' \<lparr> loading_end := loading_end (loading partStats) \<rparr> \<rparr> \<rparr>)"


section \<open>Transport requests, results and errors\<close>

text \<open>
  \<open>networkDetails\<close> is an opaque diagnostic value handed over by the transport;
  the watchdog passes the transport's own \<open>loader\<close> field instead.
\<close>

datatype network_details = Null | Details nat | LoaderField loader_id

type_synonym payload = "nat list"

record HlsConfig =
  fLoader :: bool
  fragLoadingTimeOut :: jsnum
  fragLoadingMaxRetryTimeout :: jsnum

record LoaderConfiguration =
  timeout :: jsnum
  maxRetry :: jsnum
  retryDelay :: jsnum
  maxRetryDelay :: jsnum
  highWaterMark :: jsnum

definition MIN_CHUNK_SIZE :: jsnum where
  "MIN_CHUNK_SIZE = Num (2 ^ 17)"

record FragmentLoaderContext =
  ctx_frag :: frag_id
  ctx_part :: "Part option"
  ctx_responseType :: string
  ctx_url :: string
  ctx_rangeStart :: jsnum
  ctx_rangeEnd :: jsnum

text \<open>
  \<open>createLoaderContext(frag, part)\<close>. The byte-range offsets of a segment may be
  undefined, and \<open>Number.isFinite(undefined)\<close> is false.
\<close>

definition createLoaderContext :: "frag_id \<Rightarrow> Fragment \<Rightarrow> Part option \<Rightarrow> FragmentLoaderContext" where
  "createLoaderContext frag fragObj part =
     (let url = (case part of Some p \<Rightarrow> part_url p | None \<Rightarrow> frag_url fragObj);
          start = (case part of Some p \<Rightarrow> part_byteRangeStartOffset p
                   | None \<Rightarrow> frag_byteRangeStartOffset fragObj);
          end = (case part of Some p \<Rightarrow> part_byteRangeEndOffset p
                 | None \<Rightarrow> frag_byteRangeEndOffset fragObj);
          loaderContext = \<lparr> ctx_frag = frag, ctx_part = part, ctx_responseType = ''arraybuffer'',
                            ctx_url = url, ctx_rangeStart = Num 0, ctx_rangeEnd = Num 0 \<rparr>
      in case (start, end) of
           (Some s, Some e) \<Rightarrow>
             if js_is_finite s \<and> js_is_finite e
             then loaderContext \<lparr> ctx_rangeStart := s, ctx_rangeEnd := e \<rparr>
             else loaderContext
         | _ \<Rightarrow> loaderContext)"

record FragLoadedData =
  fld_frag :: frag_id
  fld_part :: "Part option"
  fld_payload :: payload
  fld_networkDetails :: network_details

text \<open>
  The result of a load: the fragment, the \<open>partsLoaded\<close> array (absent in the result
  of a whole-fragment load) and the properties set by \<open>fragLoadedEndData[part.index] = ...\<close>,
  kept in the order of their first assignment.
\<close>

record FragLoadedEndData =
  fled_frag :: frag_id
  fled_partsLoaded :: "FragLoadedData list option"
  fled_byIndex :: "(nat \<times> FragLoadedData) list"

record ErrorResponse =
  resp_code :: int
  resp_text :: string

record FragLoadFailResult =
  err_type :: string
  err_details :: string
  err_fatal :: bool
  err_frag :: frag_id
  err_part :: "Part option"
  err_response :: "ErrorResponse option"
  err_networkDetails :: network_details

record LoadError =
  data :: FragLoadFailResult
  message :: string

text \<open>
  Modelled from the spec: the constants \<open>ErrorTypes.NETWORK_ERROR\<close>,
  \<open>ErrorDetails.FRAG_LOAD_ERROR\<close>, \<open>ErrorDetails.FRAG_LOAD_TIMEOUT\<close> and
  \<open>ErrorDetails.INTERNAL_ABORTED\<close> are imported from \<open>../errors\<close>, which is not part
  of the source at hand; they carry the names the specification gives them.
\<close>

definition NETWORK_ERROR :: string where
  "NETWORK_ERROR = ''network-error''"

definition FRAG_LOAD_ERROR :: string where
  "FRAG_LOAD_ERROR = ''load-error''"

definition FRAG_LOAD_TIMEOUT :: string where
  "FRAG_LOAD_TIMEOUT = ''load-timeout''"

definition INTERNAL_ABORTED :: string where
  "INTERNAL_ABORTED = ''internal-aborted''"

text \<open>
  What is thrown, or what a promise is rejected with: a \<open>LoadError\<close>, or the
  \<open>TypeError\<close> of reading a property of \<open>undefined\<close> (\<open>part.stats\<close> of an undefined
  part inside the executor of \<open>loadPart\<close>, \<open>this.loader.context.url\<close> in \<open>abort\<close>).
\<close>

datatype rejection = LoadErr LoadError | TypeError

datatype promise = Pending | Resolved "FragLoadedEndData option" | Rejected rejection


section \<open>The loader and its environment\<close>

text \<open>
  The loader is driven by events: calls of \<open>load\<close> and \<open>abort\<close>, the callbacks
  of the transport and the firing of the watchdog timer. The state holds the fields of the
  \<open>FragmentLoader\<close> (\<open>config\<close>, \<open>loader\<close>, \<open>partLoadTimeout\<close>), the store of
  fragments, and what the loader has done to its environment: the transports it
  constructed, the calls of \<open>loader.abort()\<close> and \<open>loader.load(...)\<close>, the timers it
  armed, the calls of \<open>clearTimeout\<close>, the promises it returned, the invocations of
  the progress callback and the exceptions that \<open>load\<close> and \<open>abort\<close> threw at their
  caller.

  A closure is a record of the variables it captured. \<open>load_call\<close> is one invocation of
  \<open>load\<close> that returned a new promise; \<open>request\<close> is one call of \<open>loader.load\<close>
  with the callbacks built by \<open>load\<close> (no part in the context) or by \<open>loadPart\<close>,
  \<open>req_settled\<close> telling whether the promise of \<open>loadPart\<close> is settled.
\<close>

datatype factory = FragmentILoader | DefaultILoader

record load_call =
  call_frag :: frag_id
  call_loader :: loader_id
  call_loaderConfig :: LoaderConfiguration
  call_onProgress :: bool
  call_partList :: "Part list"
  call_partIndex :: nat
  call_fragLoadedEndData :: FragLoadedEndData
  call_promise :: promise

record request =
  req_loader :: loader_id
  req_context :: FragmentLoaderContext
  req_config :: LoaderConfiguration
  req_call :: nat
  req_index :: nat
  req_settled :: bool

record timer =
  timer_delay :: jsnum
  timer_call :: nat
  timer_fired :: bool

record world =
  config :: HlsConfig
  loader :: "loader_id option"
  partLoadTimeout :: int
  frags :: "frag_id \<Rightarrow> Fragment"
  loaders :: "factory list"
  aborts :: "loader_id list"
  requests :: "request list"
  timers :: "timer list"
  cleared :: "int list"
  calls :: "load_call list"
  progress :: "FragLoadedData list"
  thrown :: "rejection list"

text \<open>\<open>new FragmentLoader(config)\<close>, in front of a store of fragments.\<close>

definition new_FragmentLoader :: "HlsConfig \<Rightarrow> (frag_id \<Rightarrow> Fragment) \<Rightarrow> world" where
  "new_FragmentLoader cfg store =
     \<lparr> config = cfg, loader = None, partLoadTimeout = - 1, frags = store, loaders = [],
       aborts = [], requests = [], timers = [], cleared = [], calls = [], progress = [],
       thrown = [] \<rparr>"

text \<open>Settling a promise: \<open>resolve\<close> and \<open>reject\<close> do nothing once it is settled.\<close>

definition settle :: "nat \<Rightarrow> promise \<Rightarrow> world \<Rightarrow> world" where
  "settle c p w =
     (if c < length (calls w) \<and> call_promise (calls w ! c) = Pending
      then w \<lparr> calls := (calls w)[c := (calls w ! c) \<lparr> call_promise := p \<rparr>] \<rparr>
      else w)"

definition resolve :: "nat \<Rightarrow> FragLoadedEndData option \<Rightarrow> world \<Rightarrow> world" where
  "resolve c v w = settle c (Resolved v) w"

definition reject :: "nat \<Rightarrow> rejection \<Rightarrow> world \<Rightarrow> world" where
  "reject c e w = settle c (Rejected e) w"

definition resetLoader :: "frag_id \<Rightarrow> loader_id \<Rightarrow> world \<Rightarrow> world" where
  "resetLoader frag ld w =
     (let w1 = w \<lparr> frags := (frags w)(frag := (frags w frag) \<lparr> frag_loader := None \<rparr>) \<rparr>
      in if loader w1 = Some ld
         then w1 \<lparr> cleared := cleared w1 @ [partLoadTimeout w1], loader := None \<rparr>
         else w1)"

text \<open>
  The transports (the classes behind \<open>config.loader\<close> and \<open>config.fLoader\<close>) are
  not part of the source at hand. Of them the model keeps what \<open>abort\<close> reads: the
  field \<open>context\<close> of a transport is the context given to its latest \<open>load\<close>, and
  it is undefined on a transport that was never asked to load, as in the loaders of this
  library.
\<close>

definition asked_to_load :: "world \<Rightarrow> loader_id \<Rightarrow> bool" where
  "asked_to_load w ld = (ld \<in> set (map req_loader (requests w)))"

text \<open>
  \<open>abort()\<close>. With a transport in the slot, the log line reads
  \<open>this.loader.context.url\<close>, which throws a \<open>TypeError\<close> when the transport was never
  asked to load; otherwise \<open>loader.abort()\<close> is called on the transport, and the call is
  recorded. What the transport does with it, its \<open>onAbort\<close> callback among others, is an
  event of its own.
\<close>

definition abort :: "world \<Rightarrow> rejection + world" where
  "abort w =
     (case loader w of
        Some ld \<Rightarrow>
          if asked_to_load w ld then Inr (w \<lparr> aborts := aborts w @ [ld] \<rparr>) else Inl TypeError
      | None \<Rightarrow> Inr w)"


section \<open>The part chain\<close>

definition loadError :: "string \<Rightarrow> frag_id \<Rightarrow> Part option \<Rightarrow> ErrorResponse option \<Rightarrow> network_details
    \<Rightarrow> string \<Rightarrow> rejection" where
  "loadError details frag part response networkDetails msg =
     LoadErr \<lparr> data = \<lparr> err_type = NETWORK_ERROR, err_details = details, err_fatal = False,
                         err_frag = frag, err_part = part, err_response = response,
                         err_networkDetails = networkDetails \<rparr>,
               message = msg \<rparr>"

text \<open>
  \<open>loadPart\<close>, up to the call of \<open>loader.load\<close>: the request is issued on the transport
  of the call, with the callbacks of \<open>loadPart\<close>. (\<open>loader.stats = part.stats\<close> hands the
  part's stats object to the transport; what the transport has written into it is carried
  by the events that read it.)
\<close>

definition loadPart :: "nat \<Rightarrow> Part \<Rightarrow> nat \<Rightarrow> world \<Rightarrow> world" where
  "loadPart c part index w =
     (let cl = calls w ! c; frag = call_frag cl
      in w \<lparr> requests := requests w @
               [\<lparr> req_loader = call_loader cl,
                  req_context = createLoaderContext frag (frags w frag) (Some part),
                  req_config = call_loaderConfig cl,
                  req_call = c, req_index = index, req_settled = False \<rparr>] \<rparr>)"

text \<open>
  \<open>loadPartIndex(index)\<close>, up to the call of \<open>loadPart\<close>. Beyond the end of the list
  \<open>partList[index]\<close> is undefined, \<open>loadPart\<close> throws a \<open>TypeError\<close> inside its
  promise and \<open>.catch(reject)\<close> rejects the chain with it.
\<close>

definition loadPartIndex :: "nat \<Rightarrow> nat \<Rightarrow> world \<Rightarrow> world" where
  "loadPartIndex c index w =
     (let partList = call_partList (calls w ! c)
      in if index < length partList then loadPart c (partList ! index) index w
         else reject c TypeError w)"

text \<open>
  The continuation of \<open>loadPartIndex(index)\<close>: the function passed to \<open>.then\<close>, run
  when the promise of \<open>loadPart\<close> is resolved with \<open>partLoadedData\<close>.
\<close>

definition partLoaded :: "nat \<Rightarrow> nat \<Rightarrow> Part \<Rightarrow> FragLoadedData \<Rightarrow> world \<Rightarrow> world" where
  "partLoaded c index part partLoadedData w =
     (let cl = calls w ! c; frag = call_frag cl; ld = call_loader cl;
          partList = call_partList cl;
          fragLoadedEndData = (call_fragLoadedEndData cl)
            \<lparr> fled_byIndex :=
                AList.update (part_index part) partLoadedData
                  (fled_byIndex (call_fragLoadedEndData cl)) \<rparr>;
          w1 = w \<lparr> calls := (calls w)[c := cl \<lparr> call_fragLoadedEndData := fragLoadedEndData \<rparr>] \<rparr>;
          loadedPart = fld_part partLoadedData
      in if int index \<ge> int (length partList) - 1 then
           (let w2 = resetLoader frag ld w1;
                fragObj = frags w2 frag;
                w3 = w2 \<lparr> frags := (frags w2)
                       (frag := fragObj \<lparr> frag_stats := (frag_stats fragObj) \<lparr> aborted := True \<rparr> \<rparr>) \<rparr>
            in reject c (loadError INTERNAL_ABORTED frag loadedPart None
                           (fld_networkDetails partLoadedData) []) w3)
         else
           (let nextPart = partList ! (index + 1)
            in if part_fragment nextPart \<noteq> frag
               then resolve c (Some fragLoadedEndData) (resetLoader frag ld w1)
               else loadPartIndex c (index + 1) w1))"

text \<open>
  \<open>loadFragmentParts\<close>: the new promise is the call \<open>length (calls w)\<close>; the watchdog is
  armed with \<open>setTimeout\<close>, whose handle is a fresh positive integer.
\<close>

definition loadFragmentParts :: "Part list \<Rightarrow> nat \<Rightarrow> frag_id \<Rightarrow> loader_id \<Rightarrow> LoaderConfiguration
    \<Rightarrow> world \<Rightarrow> world" where
  "loadFragmentParts partList partIndex frag ld loaderConfig w =
     (let c = length (calls w);
          w1 = w \<lparr> timers := timers w @
                    [\<lparr> timer_delay = timeout loaderConfig, timer_call = c, timer_fired = False \<rparr>],
                  partLoadTimeout := int (length (timers w)) + 1,
                  calls := calls w @
                    [\<lparr> call_frag = frag, call_loader = ld, call_loaderConfig = loaderConfig,
                       call_onProgress = True, call_partList = partList,
                       call_partIndex = partIndex,
                       call_fragLoadedEndData =
                         \<lparr> fled_frag = frag, fled_partsLoaded = Some [], fled_byIndex = [] \<rparr>,
                       call_promise = Pending \<rparr>] \<rparr>
      in loadPartIndex c partIndex w1)"

text \<open>
  The function given to \<open>setTimeout\<close>, run when the timer of handle \<open>h\<close> fires;
  \<open>stats\<close> is the contents of \<open>partList[partIndex].stats\<close> at that moment.
\<close>

definition timer_armed :: "int \<Rightarrow> world \<Rightarrow> bool" where
  "timer_armed h w =
     (1 \<le> h \<and> nat h \<le> length (timers w) \<and> \<not> timer_fired (timers w ! (nat h - 1))
      \<and> h \<notin> set (cleared w))"

definition onPartLoadTimeout :: "int \<Rightarrow> LoaderStats \<Rightarrow> world \<Rightarrow> world" where
  "onPartLoadTimeout h stats w =
     (if timer_armed h w then
        (let i = nat h - 1; t = timers w ! i; c = timer_call t; cl = calls w ! c;
             frag = call_frag cl; ld = call_loader cl; partList = call_partList cl;
             partIndex = call_partIndex cl;
             w1 = w \<lparr> timers := (timers w)[i := t \<lparr> timer_fired := True \<rparr>] \<rparr>;
             w2 = resetLoader frag ld w1
         in reject c (loadError FRAG_LOAD_TIMEOUT frag
                        (if partIndex < length partList
                         then Some ((partList ! partIndex) \<lparr> part_stats := stats \<rparr>) else None)
                        None (LoaderField ld) []) w2)
      else w)"


section \<open>\<open>load\<close>\<close>

text \<open>
  \<open>load(frag, levelDetails, targetBufferTime, onProgress)\<close>. The second argument is
  \<open>levelDetails?.partList\<close>, the last one tells whether a progress callback was given.
  The promise returned is the call \<open>length (calls w)\<close>. The result is the exception
  thrown (\<open>Inl\<close>) or the state in which \<open>load\<close> returns (\<open>Inr\<close>).
\<close>

definition newPromise :: "frag_id \<Rightarrow> loader_id \<Rightarrow> LoaderConfiguration \<Rightarrow> bool \<Rightarrow> promise \<Rightarrow> world \<Rightarrow> world" where
  "newPromise frag ld loaderConfig onProgress p w =
     w \<lparr> calls := calls w @
           [\<lparr> call_frag = frag, call_loader = ld, call_loaderConfig = loaderConfig,
              call_onProgress = onProgress, call_partList = [], call_partIndex = 0,
              call_fragLoadedEndData = \<lparr> fled_frag = frag, fled_partsLoaded = None, fled_byIndex = [] \<rparr>,
              call_promise = p \<rparr>] \<rparr>"

definition loadFragment :: "frag_id \<Rightarrow> loader_id \<Rightarrow> LoaderConfiguration \<Rightarrow> bool \<Rightarrow> world \<Rightarrow> world" where
  "loadFragment frag ld loaderConfig onProgress w =
     (let url = frag_url (frags w frag)
      in if url = [] then
           newPromise frag ld loaderConfig onProgress
             (Rejected (loadError FRAG_LOAD_ERROR frag None None Null ''Fragment does not have a url'')) w
         else
           (let loaderContext = createLoaderContext frag (frags w frag) None;
                c = length (calls w);
                w1 = newPromise frag ld loaderConfig onProgress Pending w
            in w1 \<lparr> requests := requests w1 @
                      [\<lparr> req_loader = ld, req_context = loaderContext, req_config = loaderConfig,
                         req_call = c, req_index = 0, req_settled = False \<rparr>] \<rparr>))"

text \<open>
  \<open>loader = this.loader = frag.loader = new ...(config)\<close>. The new transport is named
  by the number of transports constructed before it.
\<close>

definition installLoader :: "frag_id \<Rightarrow> world \<Rightarrow> world" where
  "installLoader frag w1 =
     (let ld = length (loaders w1)
      in w1 \<lparr> loaders := loaders w1 @
                  [if fLoader (config w1) then FragmentILoader else DefaultILoader],
                loader := Some ld,
                frags := (frags w1)(frag := (frags w1 frag) \<lparr> frag_loader := Some ld \<rparr>) \<rparr>)"

text \<open>The body of \<open>load\<close> that follows \<open>this.abort()\<close>, from the state it leaves.\<close>

definition loadAfterAbort :: "frag_id \<Rightarrow> Part list option \<Rightarrow> jsnum option \<Rightarrow> bool \<Rightarrow> world \<Rightarrow> world" where
  "loadAfterAbort frag levelDetails_partList targetBufferTime0 onProgress w1 =
     (let ld = length (loaders w1);
          w2 = installLoader frag w1;
          loaderConfig = \<lparr> timeout = fragLoadingTimeOut (config w2), maxRetry = Num 0,
                           retryDelay = Num 0,
                           maxRetryDelay = fragLoadingMaxRetryTimeout (config w2),
                           highWaterMark = MIN_CHUNK_SIZE \<rparr>;
          targetBufferTime = Math_max (frag_start (frags w2 frag)) (js_or_zero targetBufferTime0)
      in case levelDetails_partList of
           Some partList \<Rightarrow>
             if onProgress then
               (let partIndex = findIndependentPart partList frag targetBufferTime
                in if partIndex > - 1 then
                     loadFragmentParts partList (nat partIndex) frag ld loaderConfig w2
                   else if frag_url (frags w2 frag) = [] then
                     newPromise frag ld loaderConfig onProgress (Resolved None)
                       (resetLoader frag ld w2)
                   else loadFragment frag ld loaderConfig onProgress w2)
             else loadFragment frag ld loaderConfig onProgress w2
         | None \<Rightarrow> loadFragment frag ld loaderConfig onProgress w2)"

text \<open>
  \<open>load\<close> begins with \<open>this.abort()\<close>; an exception of \<open>abort\<close> leaves \<open>load\<close>
  at once, before anything else is done, and no promise is returned.
\<close>

definition load :: "frag_id \<Rightarrow> Part list option \<Rightarrow> jsnum option \<Rightarrow> bool \<Rightarrow> world
    \<Rightarrow> rejection + world" where
  "load frag levelDetails_partList targetBufferTime0 onProgress w0 =
     (case abort w0 of
        Inl e \<Rightarrow> Inl e
      | Inr w1 \<Rightarrow> Inr (loadAfterAbort frag levelDetails_partList targetBufferTime0 onProgress w1))"


section \<open>Callbacks of the transport\<close>

text \<open>
  Each callback names the request it belongs to (its position in \<open>requests\<close>). A request
  without a part carries the callbacks of \<open>load\<close>, which settle the promise of the call;
  a request with a part carries those of \<open>loadPart\<close>, which settle the promise of
  \<open>loadPart\<close>: on resolution \<open>partLoaded\<close> runs, on rejection \<open>.catch(reject)\<close>
  rejects the promise of the call with the same error. A callback and the continuation
  that the promise it settles runs next form one step.

  Parts are values. \<open>loadPart\<close> hands \<open>part.stats\<close> to the transport, which writes
  into it; \<open>stats\<close> is the contents of that object when the callback runs, and the part
  of a result or of an envelope is the list entry with these stats (\<open>livePart\<close>).
  \<open>load\<close> hands \<open>frag.stats\<close> to
  the transport of a whole-fragment request and never reads it again: the store keeps the
  stats of a fragment as this module wrote them.
\<close>

definition livePart :: "Part option \<Rightarrow> LoaderStats \<Rightarrow> Part option" where
  "livePart part stats = map_option (\<lambda>p. p \<lparr> part_stats := stats \<rparr>) part"

definition settleRequest :: "nat \<Rightarrow> world \<Rightarrow> world" where
  "settleRequest rid w = w \<lparr> requests := (requests w)[rid := (requests w ! rid) \<lparr> req_settled := True \<rparr>] \<rparr>"

definition onSuccess :: "nat \<Rightarrow> payload \<Rightarrow> LoaderStats \<Rightarrow> network_details \<Rightarrow> world \<Rightarrow> world" where
  "onSuccess rid response_data stats networkDetails w =
     (if rid < length (requests w) then
        (let r = requests w ! rid; c = req_call r; cl = calls w ! c;
             frag = call_frag cl; ld = call_loader cl
         in case ctx_part (req_context r) of
              None \<Rightarrow>
                resolve c (Some \<lparr> fled_frag = frag, fled_partsLoaded = None, fled_byIndex = [] \<rparr>)
                  (resetLoader frag ld w)
            | Some p \<Rightarrow>
                (let part = p \<lparr> part_stats := stats \<rparr>;
                     w1 = w \<lparr> frags := (frags w)(frag := updateStatsFromPart (frags w frag) part) \<rparr>;
                     partLoadedData = \<lparr> fld_frag = frag, fld_part = Some part,
                                        fld_payload = response_data,
                                        fld_networkDetails = networkDetails \<rparr>;
                     w2 = w1 \<lparr> progress := progress w1 @ [partLoadedData] \<rparr>
                 in if req_settled r then w2
                    else partLoaded c (req_index r) part partLoadedData (settleRequest rid w2)))
      else w)"

text \<open>The rejection shared by \<open>onError\<close>, \<open>onAbort\<close> and \<open>onTimeout\<close>.\<close>

definition rejectRequest :: "nat \<Rightarrow> rejection \<Rightarrow> world \<Rightarrow> world" where
  "rejectRequest rid e w =
     (let r = requests w ! rid
      in case ctx_part (req_context r) of
           None \<Rightarrow> reject (req_call r) e w
         | Some p \<Rightarrow>
             if req_settled r then w else reject (req_call r) e (settleRequest rid w))"

definition onError :: "nat \<Rightarrow> ErrorResponse \<Rightarrow> LoaderStats \<Rightarrow> network_details \<Rightarrow> world \<Rightarrow> world" where
  "onError rid response stats networkDetails w =
     (if rid < length (requests w) then
        (let r = requests w ! rid; cl = calls w ! req_call r;
             frag = call_frag cl; ld = call_loader cl
         in rejectRequest rid
              (loadError FRAG_LOAD_ERROR frag (livePart (ctx_part (req_context r)) stats)
                 (Some response) networkDetails [])
              (resetLoader frag ld w))
      else w)"

definition onAbort :: "nat \<Rightarrow> LoaderStats \<Rightarrow> network_details \<Rightarrow> world \<Rightarrow> world" where
  "onAbort rid stats networkDetails w =
     (if rid < length (requests w) then
        (let r = requests w ! rid; cl = calls w ! req_call r;
             frag = call_frag cl; ld = call_loader cl;
             w1 = (case ctx_part (req_context r) of
                     None \<Rightarrow> w
                   | Some p \<Rightarrow>
                       w \<lparr> frags := (frags w)
                            (frag := (frags w frag)
                               \<lparr> frag_stats := (frag_stats (frags w frag))
                                   \<lparr> aborted := aborted stats \<rparr> \<rparr>) \<rparr>)
         in rejectRequest rid
              (loadError INTERNAL_ABORTED frag (livePart (ctx_part (req_context r)) stats) None
                 networkDetails [])
              (resetLoader frag ld w1))
      else w)"

definition onTimeout :: "nat \<Rightarrow> LoaderStats \<Rightarrow> network_details \<Rightarrow> world \<Rightarrow> world" where
  "onTimeout rid stats networkDetails w =
     (if rid < length (requests w) then
        (let r = requests w ! rid; cl = calls w ! req_call r;
             frag = call_frag cl; ld = call_loader cl
         in rejectRequest rid
              (loadError FRAG_LOAD_TIMEOUT frag (livePart (ctx_part (req_context r)) stats) None
                 networkDetails [])
              (resetLoader frag ld w))
      else w)"

text \<open>
  \<open>onProgress\<close> exists only among the callbacks of \<open>load\<close>; it forwards the chunk to
  the caller's callback when there is one.
\<close>

definition onProgress :: "nat \<Rightarrow> payload \<Rightarrow> network_details \<Rightarrow> world \<Rightarrow> world" where
  "onProgress rid chunk networkDetails w =
     (if rid < length (requests w) then
        (let r = requests w ! rid; cl = calls w ! req_call r
         in case ctx_part (req_context r) of
              None \<Rightarrow>
                if call_onProgress cl
                then w \<lparr> progress := progress w @
                          [\<lparr> fld_frag = call_frag cl, fld_part = None, fld_payload = chunk,
                             fld_networkDetails = networkDetails \<rparr>] \<rparr>
                else w
            | Some p \<Rightarrow> w)
      else w)"


section \<open>Runs\<close>

text \<open>
  The events: a call of \<open>load\<close> (its promise is the next call), a call of \<open>abort\<close>,
  a callback of the transport for a request, the firing of the timer of a handle. Where the
  code reads the stats object of a part, the event carries its contents. An exception of
  \<open>load\<close> or \<open>abort\<close> goes to the caller and leaves the loader as it was. A run takes
  the events one after the other.
\<close>

datatype event =
    Load frag_id "Part list option" "jsnum option" bool
  | Abort
  | OnSuccess nat payload LoaderStats network_details
  | OnError nat ErrorResponse LoaderStats network_details
  | OnAbort nat LoaderStats network_details
  | OnTimeout nat LoaderStats network_details
  | OnProgress nat payload network_details
  | TimerFires int LoaderStats

definition returned :: "world \<Rightarrow> rejection + world \<Rightarrow> world" where
  "returned w result =
     (case result of Inl e \<Rightarrow> w \<lparr> thrown := thrown w @ [e] \<rparr> | Inr w' \<Rightarrow> w')"

fun step :: "world \<Rightarrow> event \<Rightarrow> world" where
  "step w (Load frag partList targetBufferTime onProg) =
     returned w (load frag partList targetBufferTime onProg w)"
| "step w Abort = returned w (abort w)"
| "step w (OnSuccess rid d st nd) = onSuccess rid d st nd w"
| "step w (OnError rid resp st nd) = onError rid resp st nd w"
| "step w (OnAbort rid st nd) = onAbort rid st nd w"
| "step w (OnTimeout rid st nd) = onTimeout rid st nd w"
| "step w (OnProgress rid d nd) = onProgress rid d nd w"
| "step w (TimerFires h st) = onPartLoadTimeout h st w"

definition run :: "world \<Rightarrow> event list \<Rightarrow> world" where
  "run w evs = foldl step w evs"


section \<open>Auxiliary notions and examples\<close>

text \<open>
  The number of parts that \<open>findIndependentPart\<close> scans: the parts in front of the
  first one whose start exceeds the target time.
\<close>

definition scanned :: "Part list \<Rightarrow> jsnum \<Rightarrow> nat" where
  "scanned partList t = length (takeWhile (\<lambda>p. \<not> js_lt t (part_start p)) partList)"

text \<open>The indices from \<open>i\<close> up to \<open>n\<close> of the independent parts of a fragment.\<close>

definition candidates :: "Part list \<Rightarrow> frag_id \<Rightarrow> nat \<Rightarrow> nat \<Rightarrow> nat set" where
  "candidates partList frag i n =
     {j. i \<le> j \<and> j < n \<and> part_independent (partList ! j) \<and> part_fragment (partList ! j) = frag}"

text \<open>A stats record with nothing loaded, a fragment and a part built around them.\<close>

definition stats0 :: LoaderStats where
  "stats0 = \<lparr> loaded = Num 0, total = Num 0, aborted = False,
              loading = \<lparr> loading_start = Num 0, loading_first = Num 0, loading_end = Num 0 \<rparr> \<rparr>"

definition mkFragment :: "string \<Rightarrow> rat \<Rightarrow> rat \<Rightarrow> Fragment" where
  "mkFragment url start duration =
     \<lparr> frag_url = url, frag_start = Num start, frag_duration = Num duration,
       frag_byteRangeStartOffset = None, frag_byteRangeEndOffset = None,
       frag_stats = stats0, frag_loader = None \<rparr>"

definition mkPart :: "frag_id \<Rightarrow> nat \<Rightarrow> rat \<Rightarrow> rat \<Rightarrow> bool \<Rightarrow> LoaderStats \<Rightarrow> Part" where
  "mkPart frag index start duration indep stats =
     \<lparr> part_index = index, part_url = ''part'', part_start = Num start,
       part_duration = Num duration, part_independent = indep, part_fragment = frag,
       part_byteRangeStartOffset = None, part_byteRangeEndOffset = None, part_stats = stats \<rparr>"

text \<open>
  The merge of the specification's example: a part of duration 1 with 1000 bytes loaded of
  a given total, merged into a fragment of duration 4 that has loaded nothing yet.
\<close>

definition example_frag :: Fragment where
  "example_frag = mkFragment ''frag'' 0 4"

definition example_part :: "rat \<Rightarrow> Part" where
  "example_part partTotal =
     mkPart 0 0 0 1 True (stats0 \<lparr> loaded := Num 1000, total := Num partTotal \<rparr>)"

text \<open>
  A loader in front of a store where fragment 7 is a hint without a URL and every other
  fragment \<open>f\<close> starts at \<open>4 f\<close>, lasts 4 and has a URL; a part list with three parts of
  fragment 1 followed by a part of fragment 2.
\<close>

definition example_config :: HlsConfig where
  "example_config = \<lparr> fLoader = False, fragLoadingTimeOut = Num 5000,
                       fragLoadingMaxRetryTimeout = Num 64000 \<rparr>"

definition example_store :: "frag_id \<Rightarrow> Fragment" where
  "example_store f = mkFragment (if f = 7 then [] else ''frag'') (4 * of_nat f) 4"

definition example_world :: world where
  "example_world = new_FragmentLoader example_config example_store"

definition example_partList :: "Part list" where
  "example_partList =
     [mkPart 1 0 4 1 True stats0, mkPart 1 1 5 1 False stats0, mkPart 1 2 6 1 True stats0,
      mkPart 2 0 8 1 True stats0]"

definition example_stats :: LoaderStats where
  "example_stats = stats0 \<lparr> loaded := Num 1000, total := Num 1000 \<rparr>"

text \<open>
  Request \<open>rid\<close> is the open request of \<open>loadPartIndex(index)\<close> for \<open>part\<close> in the chain
  of call \<open>c\<close>, whose promise is pending.
\<close>

definition awaiting_part :: "world \<Rightarrow> nat \<Rightarrow> nat \<Rightarrow> nat \<Rightarrow> Part \<Rightarrow> bool" where
  "awaiting_part w rid c index part =
     (rid < length (requests w) \<and> req_call (requests w ! rid) = c
      \<and> req_index (requests w ! rid) = index
      \<and> ctx_part (req_context (requests w ! rid)) = Some part
      \<and> \<not> req_settled (requests w ! rid)
      \<and> c < length (calls w) \<and> call_promise (calls w ! c) = Pending)"

text \<open>
  The result of \<open>loadPart\<close> for the part at list index \<open>k\<close>, when the transport answers
  with \<open>payload k\<close>, \<open>stats k\<close> and \<open>nd k\<close>; the events by which the transport answers
  \<open>n\<close> successive requests, the first one being request \<open>r0\<close> for the part at list
  index \<open>s\<close>, with success; and the properties that \<open>fragLoadedEndData[part.index] = ...\<close>
  sets for the parts at the list indices \<open>ks\<close>, in this order.
\<close>

definition partResult :: "frag_id \<Rightarrow> Part list \<Rightarrow> (nat \<Rightarrow> payload) \<Rightarrow> (nat \<Rightarrow> LoaderStats)
    \<Rightarrow> (nat \<Rightarrow> network_details) \<Rightarrow> nat \<Rightarrow> FragLoadedData" where
  "partResult frag partList payload stats nd k =
     \<lparr> fld_frag = frag, fld_part = Some ((partList ! k) \<lparr> part_stats := stats k \<rparr>),
       fld_payload = payload k, fld_networkDetails = nd k \<rparr>"

definition part_successes :: "nat \<Rightarrow> nat \<Rightarrow> nat \<Rightarrow> (nat \<Rightarrow> payload) \<Rightarrow> (nat \<Rightarrow> LoaderStats)
    \<Rightarrow> (nat \<Rightarrow> network_details) \<Rightarrow> event list" where
  "part_successes r0 s n payload stats nd =
     map (\<lambda>j. OnSuccess (r0 + j) (payload (s + j)) (stats (s + j)) (nd (s + j))) [0..<n]"

definition collected :: "frag_id \<Rightarrow> Part list \<Rightarrow> (nat \<Rightarrow> payload) \<Rightarrow> (nat \<Rightarrow> LoaderStats)
    \<Rightarrow> (nat \<Rightarrow> network_details) \<Rightarrow> nat list \<Rightarrow> (nat \<times> FragLoadedData) list" where
  "collected frag partList payload stats nd ks =
     foldl (\<lambda>al k. AList.update (part_index (partList ! k))
                      (partResult frag partList payload stats nd k) al) [] ks"

text \<open>
  The chain of call \<open>c\<close>, the latest call, has its transport in the loader's slot, has set
  the properties \<open>acc\<close> so far and waits for the part at list index \<open>index\<close>, requested
  by the latest request \<open>rid\<close>.
\<close>

definition chain_at :: "world \<Rightarrow> nat \<Rightarrow> nat \<Rightarrow> frag_id \<Rightarrow> Part list \<Rightarrow> nat
    \<Rightarrow> (nat \<times> FragLoadedData) list \<Rightarrow> bool" where
  "chain_at w c rid frag partList index acc =
     (length (calls w) = Suc c \<and> length (requests w) = Suc rid
      \<and> call_frag (calls w ! c) = frag \<and> call_partList (calls w ! c) = partList
      \<and> call_fragLoadedEndData (calls w ! c) =
          \<lparr> fled_frag = frag, fled_partsLoaded = Some [], fled_byIndex = acc \<rparr>
      \<and> loader w = Some (call_loader (calls w ! c))
      \<and> index < length partList
      \<and> awaiting_part w rid c index (partList ! index))"

text \<open>
  The states the loader can reach. It starts from \<open>new FragmentLoader(config)\<close> and takes
  any event, provided that the transport completes a request at most once: a request of
  \<open>loadPart\<close> whose promise is settled gets no further \<open>onSuccess\<close>, \<open>onError\<close>,
  \<open>onAbort\<close> or \<open>onTimeout\<close>.
\<close>

definition open_request :: "world \<Rightarrow> nat \<Rightarrow> bool" where
  "open_request w rid = (rid < length (requests w) \<and> \<not> req_settled (requests w ! rid))"

fun admissible :: "world \<Rightarrow> event \<Rightarrow> bool" where
  "admissible w (OnSuccess rid d st nd) = open_request w rid"
| "admissible w (OnError rid resp st nd) = open_request w rid"
| "admissible w (OnAbort rid st nd) = open_request w rid"
| "admissible w (OnTimeout rid st nd) = open_request w rid"
| "admissible w e = True"

inductive reachable :: "world \<Rightarrow> bool" where
  reachable_new: "reachable (new_FragmentLoader cfg store)"
| reachable_step: "reachable w \<Longrightarrow> admissible w e \<Longrightarrow> reachable (step w e)"

text \<open>
  Invariants of the reachable states. Requests and timers belong to calls that exist; the
  calls were given transports constructed one after the other; the handles known to the
  loader are handles of timers that exist.
\<close>

definition wf_world :: "world \<Rightarrow> bool" where
  "wf_world w =
     ((\<forall>r \<in> set (requests w). req_call r < length (calls w))
      \<and> (\<forall>t \<in> set (timers w). timer_call t < length (calls w))
      \<and> (\<forall>cl \<in> set (calls w). call_loader cl < length (loaders w))
      \<and> sorted_wrt (<) (map call_loader (calls w))
      \<and> partLoadTimeout w \<le> int (length (timers w))
      \<and> (\<forall>h \<in> set (cleared w). h \<le> int (length (timers w))))"

text \<open>The envelope of this layer, and the promises that were not rejected with anything else.\<close>

fun envelope_ok :: "rejection \<Rightarrow> bool" where
  "envelope_ok (LoadErr err) =
     (err_type (data err) = NETWORK_ERROR
      \<and> err_details (data err) \<in> {FRAG_LOAD_ERROR, FRAG_LOAD_TIMEOUT, INTERNAL_ABORTED}
      \<and> \<not> err_fatal (data err))"
| "envelope_ok TypeError = False"

fun promise_ok :: "promise \<Rightarrow> bool" where
  "promise_ok (Rejected e) = envelope_ok e"
| "promise_ok p = True"

definition calls_ok :: "load_call list \<Rightarrow> bool" where
  "calls_ok cs = (\<forall>cl \<in> set cs. promise_ok (call_promise cl))"

definition rejections_ok :: "world \<Rightarrow> bool" where
  "rejections_ok w = calls_ok (calls w)"

text \<open>
  What a callback of the transport, the watchdog or \<open>abort\<close> leaves as it is: the
  transports given to the calls, the calls that the requests and the timers belong to, the
  transports constructed, the watchdog handle; \<open>clearTimeout\<close> is called on that handle only.
\<close>

definition callback_frame :: "world \<Rightarrow> world \<Rightarrow> bool" where
  "callback_frame w w' =
     (map call_loader (calls w') = map call_loader (calls w)
      \<and> set (map req_call (requests w')) \<subseteq> set (map req_call (requests w))
      \<and> map timer_call (timers w') = map timer_call (timers w)
      \<and> map timer_delay (timers w') = map timer_delay (timers w)
      \<and> partLoadTimeout w' = partLoadTimeout w
      \<and> set (cleared w') \<subseteq> insert (partLoadTimeout w) (set (cleared w))
      \<and> loaders w' = loaders w)"

fun is_Load :: "event \<Rightarrow> bool" where
  "is_Load (Load frag partList targetBufferTime onProg) = True"
| "is_Load e = False"

text \<open>
  \<open>abort\<close> does not throw: the slot is empty, or its transport has been asked to load.
\<close>

definition slot_usable :: "world \<Rightarrow> bool" where
  "slot_usable w = (case loader w of None \<Rightarrow> True | Some ld \<Rightarrow> asked_to_load w ld)"

text \<open>The state in which \<open>abort\<close> returns when it does not throw.\<close>

definition afterAbort :: "world \<Rightarrow> world" where
  "afterAbort w = (case loader w of Some ld \<Rightarrow> w \<lparr> aborts := aborts w @ [ld] \<rparr> | None \<Rightarrow> w)"

text \<open>A run whose events are admissible one after the other.\<close>

fun admissible_run :: "world \<Rightarrow> event list \<Rightarrow> bool" where
  "admissible_run w [] = True"
| "admissible_run w (e # evs) = (admissible w e \<and> admissible_run (step w e) evs)"

text \<open>
  Two runs of the example loader. In the first, a fragment without a URL is loaded without a
  part list. In the second, the chain of fragment 1 is started, its watchdog fires, the
  chain of fragment 2 is started, and then the transport of the first chain delivers the
  part it was loading.
\<close>

definition after_no_url_load :: world where
  "after_no_url_load = run example_world [Load 7 None None False]"

definition detached_chain_run :: "event list" where
  "detached_chain_run =
     [Load 1 (Some example_partList) None True,
      TimerFires 1 stats0,
      Load 2 (Some example_partList) None True,
      OnSuccess 0 [10] example_stats (Details 0)]"


section \<open>Properties of the independent-part selection\<close>

lemma scanned_le: "scanned pl t \<le> length pl"
  by (simp add: scanned_def length_takeWhile_le)

lemma scanned_nth: "i < scanned pl t \<Longrightarrow> \<not> js_lt t (part_start (pl ! i))"
  unfolding scanned_def
  by (metis (mono_tags, lifting) nth_mem set_takeWhileD takeWhile_nth)

lemma scanned_stop: "scanned pl t < length pl \<Longrightarrow> js_lt t (part_start (pl ! scanned pl t))"
  unfolding scanned_def using nth_length_takeWhile[of "\<lambda>p. \<not> js_lt t (part_start p)" pl] by simp

lemma candidates_finite: "finite (candidates pl frag i n)"
  unfolding candidates_def by simp

lemma candidates_step:
  "i < n \<Longrightarrow> candidates pl frag i n =
     (if part_independent (pl ! i) \<and> part_fragment (pl ! i) = frag
      then insert i (candidates pl frag (Suc i) n)
      else candidates pl frag (Suc i) n)"
  unfolding candidates_def
  by (auto simp: Suc_le_eq le_less)

lemma candidates_empty: "n \<le> i \<Longrightarrow> candidates pl frag i n = {}"
  unfolding candidates_def by auto

lemma Max_insert_below:
  "finite S \<Longrightarrow> \<forall>j\<in>S. i < j \<Longrightarrow> S \<noteq> {} \<Longrightarrow> Max (insert (i::nat) S) = Max S"
  by (metis Max_in Max_insert less_imp_le max.absorb2)

text \<open>
  The loop invariant: entered at an index \<open>i\<close> that the scan reaches, the loop returns the
  greatest candidate from \<open>i\<close> on, or the value it was entered with when there is none.
\<close>

lemma findIndependentPart_loop_spec:
  "i \<le> scanned pl t \<Longrightarrow>
   findIndependentPart_loop pl frag t i acc =
     (if candidates pl frag i (scanned pl t) = {} then acc
      else int (Max (candidates pl frag i (scanned pl t))))"
proof (induction pl frag t i acc rule: findIndependentPart_loop.induct)
  case (1 pl frag t i acc)
  let ?n = "scanned pl t"
  show ?case
  proof (cases "i < ?n")
    case False
    with "1.prems" have eq: "i = ?n" by simp
    have "findIndependentPart_loop pl frag t i acc = acc"
    proof (cases "i < length pl")
      case True
      with eq scanned_stop[of pl t] have "js_lt t (part_start (pl ! i))" by simp
      with True show ?thesis by (subst findIndependentPart_loop.simps) (simp add: Let_def)
    next
      case False
      then show ?thesis by (subst findIndependentPart_loop.simps) simp
    qed
    with eq show ?thesis by (simp add: candidates_empty)
  next
    case True
    then have il: "i < length pl" using scanned_le[of pl t] by simp
    from True have nlt: "\<not> js_lt t (part_start (pl ! i))" by (rule scanned_nth)
    let ?acc' = "if part_independent (pl ! i) \<and> part_fragment (pl ! i) = frag then int i else acc"
    have unf: "findIndependentPart_loop pl frag t i acc =
        findIndependentPart_loop pl frag t (i + 1) ?acc'"
      using il nlt by (subst findIndependentPart_loop.simps) (simp add: Let_def)
    have ih: "findIndependentPart_loop pl frag t (i + 1) ?acc' =
        (if candidates pl frag (i + 1) ?n = {} then ?acc'
         else int (Max (candidates pl frag (i + 1) ?n)))"
      using "1.IH"[OF il refl nlt] True by simp
    have above: "\<forall>j\<in>candidates pl frag (Suc i) ?n. i < j" by (auto simp: candidates_def)
    show ?thesis
      unfolding unf ih
      using candidates_step[OF True, of pl frag] Max_insert_below[OF candidates_finite above]
      by auto
  qed
qed

lemma findIndependentPart_candidates:
  "findIndependentPart pl frag t =
     (if candidates pl frag 0 (scanned pl t) = {} then - 1
      else int (Max (candidates pl frag 0 (scanned pl t))))"
  unfolding findIndependentPart_def by (rule findIndependentPart_loop_spec) simp

lemma js_lt_irrefl: "\<not> js_lt t t"
  by (cases t) auto

text \<open>
  C3. \<open>findIndependentPart(partList, frag, targetBufferTime)\<close> scans the list in ascending
  order and stops at the first part whose start strictly exceeds the target time, so the
  parts scanned are those in front of that part (\<open>n\<close> of them). It returns the greatest
  scanned index whose part is independent and owned by \<open>frag\<close>, and \<open>-1\<close> when no
  scanned part is. The boundary is inclusive: a start equal to the target does not exceed
  it, and on finite numbers "exceeds" is the strict order.
\<close>

theorem findIndependentPart_greatest_scanned:
  "(let n = length (takeWhile (\<lambda>p. \<not> js_lt t (part_start p)) partList);
        S = {i. i < n \<and> part_independent (partList ! i) \<and> part_fragment (partList ! i) = frag}
    in findIndependentPart partList frag t = (if S = {} then - 1 else int (Max S)))
   \<and> \<not> js_lt t t
   \<and> (\<forall>a b. js_lt (Num a) (Num b) = (a < b))"
  using findIndependentPart_candidates[of partList frag t] js_lt_irrefl[of t]
  by (simp add: candidates_def scanned_def Let_def)


section \<open>Properties of the statistics merge\<close>

lemma total_updateStatsFromPart:
  "js_truthy (total (part_stats part)) \<Longrightarrow>
   total (frag_stats (updateStatsFromPart frag part)) =
     (let fragLoaded = js_add (loaded (frag_stats frag)) (loaded (part_stats part));
          partTotal = total (part_stats part);
          estLoadedParts = Math_round (js_div fragLoaded partTotal);
          estTotalParts = Math_round (js_div (frag_duration frag) (part_duration part))
      in js_add (js_add fragLoaded partTotal)
           (js_mul (js_sub estTotalParts estLoadedParts)
              (Math_round (js_div fragLoaded estLoadedParts))))"
  by (simp add: updateStatsFromPart_def Let_def)

lemma loaded_updateStatsFromPart:
  "loaded (frag_stats (updateStatsFromPart frag part)) =
     js_add (loaded (frag_stats frag)) (loaded (part_stats part))"
  by (simp add: updateStatsFromPart_def Let_def)

text \<open>
  C6, as stated, at its example: with \<open>partStats = {loaded: 1000, total: 4000}\<close>, a
  fragment of duration 4, a part of duration 1 and \<open>fragStats.loaded = 1000\<close> after the
  merge, \<open>fragStats.total\<close> is not 5000. \<open>round(1000 / 4000)\<close> is 0, the formula
  divides by it, and the total is \<open>Infinity\<close>.
\<close>

theorem updateStatsFromPart_example_not_5000:
  "loaded (part_stats (example_part 4000)) = Num 1000
   \<and> total (part_stats (example_part 4000)) = Num 4000
   \<and> frag_duration example_frag = Num 4
   \<and> part_duration (example_part 4000) = Num 1
   \<and> loaded (frag_stats (updateStatsFromPart example_frag (example_part 4000))) = Num 1000
   \<and> total (frag_stats (updateStatsFromPart example_frag (example_part 4000))) \<noteq> Num 5000"
  by code_simp

text \<open>
  C6, amended. When \<open>partStats.total\<close> is non-zero, \<open>fragStats.loaded\<close> is incremented by
  \<open>partStats.loaded\<close> and \<open>fragStats.total\<close> is set by the formula of the claim, every
  operation being that of JavaScript numbers. At the example of the claim the total is
  \<open>Infinity\<close>; it is 5000 when the part's total is 1000 instead of 4000.
\<close>

theorem updateStatsFromPart_total_formula:
  "(js_truthy (total (part_stats part)) \<longrightarrow>
     (let fragLoaded = js_add (loaded (frag_stats frag)) (loaded (part_stats part));
          partTotal = total (part_stats part);
          fragStats = frag_stats (updateStatsFromPart frag part)
      in loaded fragStats = fragLoaded
       \<and> total fragStats =
           js_add (js_add fragLoaded partTotal)
             (js_mul
                (js_sub (Math_round (js_div (frag_duration frag) (part_duration part)))
                   (Math_round (js_div fragLoaded partTotal)))
                (Math_round (js_div fragLoaded (Math_round (js_div fragLoaded partTotal)))))))
   \<and> total (frag_stats (updateStatsFromPart example_frag (example_part 4000))) = PosInf
   \<and> total (frag_stats (updateStatsFromPart example_frag (example_part 1000))) = Num 5000"
proof -
  have "total (frag_stats (updateStatsFromPart example_frag (example_part 4000))) = PosInf"
    by code_simp
  moreover have "total (frag_stats (updateStatsFromPart example_frag (example_part 1000))) = Num 5000"
    by code_simp
  ultimately show ?thesis
    using total_updateStatsFromPart[of part frag] loaded_updateStatsFromPart[of frag part]
    by (simp add: Let_def)
qed

theorem updateStatsFromPart_total_formula_witness:
  "js_truthy (total (part_stats (example_part 4000)))
   \<and> loaded (frag_stats (updateStatsFromPart example_frag (example_part 4000))) = Num 1000
   \<and> total (frag_stats (updateStatsFromPart example_frag (example_part 4000))) = PosInf"
proof -
  note t = updateStatsFromPart_total_formula[of "example_part 4000" example_frag]
  have h: "js_truthy (total (part_stats (example_part 4000)))" by code_simp
  have l: "js_add (loaded (frag_stats example_frag)) (loaded (part_stats (example_part 4000))) = Num 1000"
    by code_simp
  from t h have "loaded (frag_stats (updateStatsFromPart example_frag (example_part 4000))) =
      js_add (loaded (frag_stats example_frag)) (loaded (part_stats (example_part 4000)))"
    unfolding Let_def by blast
  with l have "loaded (frag_stats (updateStatsFromPart example_frag (example_part 4000))) = Num 1000"
    by (simp only:)
  moreover from t
  have "total (frag_stats (updateStatsFromPart example_frag (example_part 4000))) = PosInf"
    by blast
  ultimately show ?thesis using h by blast
qed

lemma not_finite_js_add: "\<not> js_is_finite b \<Longrightarrow> \<not> js_is_finite (js_add a b)"
  by (cases a; cases b) auto

lemma not_finite_js_mul: "\<not> js_is_finite b \<Longrightarrow> \<not> js_is_finite (js_mul a b)"
  by (cases a; cases b) (auto simp: js_mul_def js_signed_inf_def)

lemma not_finite_Math_round: "\<not> js_is_finite b \<Longrightarrow> \<not> js_is_finite (Math_round b)"
  by (cases b) auto

lemma not_finite_js_div_zero: "js_is_zero b \<Longrightarrow> \<not> js_is_finite (js_div a b)"
  by (cases a; cases b) (auto simp: js_div_def js_signed_inf_def)

lemma js_div_Num:
  "0 \<le> l \<Longrightarrow> 0 < t \<Longrightarrow> js_div (Num l) (Num t) = (if l = 0 then Num 0 else Num (l / t))"
  by (auto simp: js_div_def js_signed_zero_def)

lemma round_div_zero_iff:
  assumes "0 \<le> l" "0 < t"
  shows "js_is_zero (Math_round (js_div (Num l) (Num t))) \<longleftrightarrow> 2 * l < t"
proof -
  have q: "0 \<le> l / t" using assms by simp
  have nn: "\<not> l / t < 0" using assms by (simp add: not_less)
  have "(\<lfloor>l / t + 1 / 2\<rfloor> = 0) \<longleftrightarrow> 2 * l < t"
  proof -
    have "(\<lfloor>l / t + 1 / 2\<rfloor> = 0) \<longleftrightarrow> (0 \<le> l / t + 1 / 2 \<and> l / t + 1 / 2 < 1)"
      by (simp add: floor_eq_iff)
    also have "\<dots> \<longleftrightarrow> l / t < 1 / 2" using q by linarith
    also have "\<dots> \<longleftrightarrow> l < 1 / 2 * t" using assms(2) by (rule pos_divide_less_eq)
    also have "\<dots> \<longleftrightarrow> 2 * l < t" by linarith
    finally show ?thesis .
  qed
  then show ?thesis using assms js_div_Num[OF assms] nn by auto
qed

lemma round_div_positive:
  assumes "0 \<le> l" "0 < t" "\<not> js_is_zero (Math_round (js_div (Num l) (Num t)))"
  shows "\<exists>k. 1 \<le> k \<and> Math_round (js_div (Num l) (Num t)) = Num (of_int k)"
proof -
  note d = js_div_Num[OF assms(1,2)]
  have nn: "\<not> l / t < 0" using assms by (simp add: not_less)
  have ge: "0 \<le> \<lfloor>l / t + 1 / 2\<rfloor>" using assms by simp
  from assms(3) d nn have "\<lfloor>l / t + 1 / 2\<rfloor> \<noteq> 0" by (auto split: if_splits)
  with ge have "1 \<le> \<lfloor>l / t + 1 / 2\<rfloor>" by linarith
  moreover have "Math_round (js_div (Num l) (Num t)) = Num (of_int \<lfloor>l / t + 1 / 2\<rfloor>)"
    using d nn assms(3) by (auto split: if_splits)
  ultimately show ?thesis by blast
qed

text \<open>
  C10. In \<open>updateStatsFromPart\<close>, when \<open>partStats.total\<close> is non-zero but
  \<open>round(fragStats.loaded / partStats.total)\<close> is zero, \<open>fragStats.loaded / estLoadedParts\<close>
  divides by zero and \<open>fragStats.total\<close> is assigned a value that is not finite. For byte
  counts (\<open>fragStats.loaded\<close> non-negative, \<open>partStats.total\<close> positive) the rounding is
  zero exactly when the loaded count is less than half of the part's total, and a finite
  \<open>fragStats.total\<close> is computed only if the rounding is at least 1.
\<close>

theorem updateStatsFromPart_division_by_zero:
  assumes "js_truthy (total (part_stats part))"
  shows "let fragLoaded = js_add (loaded (frag_stats frag)) (loaded (part_stats part));
             partTotal = total (part_stats part);
             estLoadedParts = Math_round (js_div fragLoaded partTotal);
             fragTotal = total (frag_stats (updateStatsFromPart frag part))
         in (js_is_zero estLoadedParts \<longrightarrow> \<not> js_is_finite fragTotal)
          \<and> (\<forall>l t. fragLoaded = Num l \<and> partTotal = Num t \<and> 0 \<le> l \<and> 0 < t \<longrightarrow>
                (js_is_zero estLoadedParts \<longleftrightarrow> 2 * l < t)
              \<and> (js_is_finite fragTotal \<longrightarrow> (\<exists>k. 1 \<le> k \<and> estLoadedParts = Num (of_int k))))"
proof -
  let ?L = "js_add (loaded (frag_stats frag)) (loaded (part_stats part))"
  let ?T = "total (part_stats part)"
  let ?est = "Math_round (js_div ?L ?T)"
  let ?tot = "total (frag_stats (updateStatsFromPart frag part))"
  have a: "js_is_zero ?est \<Longrightarrow> \<not> js_is_finite ?tot"
    unfolding total_updateStatsFromPart[OF assms] Let_def
    by (intro not_finite_js_add not_finite_js_mul not_finite_Math_round not_finite_js_div_zero)
  have b: "(js_is_zero ?est \<longleftrightarrow> 2 * l < t)
           \<and> (js_is_finite ?tot \<longrightarrow> (\<exists>k. 1 \<le> k \<and> ?est = Num (of_int k)))"
    if "?L = Num l" "?T = Num t" "0 \<le> l" "0 < t" for l t
    using that a round_div_zero_iff[of l t] round_div_positive[of l t] by auto
  show ?thesis unfolding Let_def using a b by blast
qed

theorem updateStatsFromPart_division_by_zero_witness:
  "js_truthy (total (part_stats (example_part 4000)))
   \<and> js_is_zero (Math_round (js_div
         (js_add (loaded (frag_stats example_frag)) (loaded (part_stats (example_part 4000))))
         (total (part_stats (example_part 4000)))))
   \<and> \<not> js_is_finite (total (frag_stats (updateStatsFromPart example_frag (example_part 4000))))
   \<and> 2 * (1000::rat) < 4000
   \<and> js_truthy (total (part_stats (example_part 1000)))
   \<and> js_is_finite (total (frag_stats (updateStatsFromPart example_frag (example_part 1000))))
   \<and> (\<exists>k. 1 \<le> k \<and>
        Math_round (js_div
          (js_add (loaded (frag_stats example_frag)) (loaded (part_stats (example_part 1000))))
          (total (part_stats (example_part 1000)))) = Num (of_int k))"
proof -
  have h1: "js_truthy (total (part_stats (example_part 4000)))" by code_simp
  have z1: "js_is_zero (Math_round (js_div
      (js_add (loaded (frag_stats example_frag)) (loaded (part_stats (example_part 4000))))
      (total (part_stats (example_part 4000)))))"
    by code_simp
  have h2: "js_truthy (total (part_stats (example_part 1000)))" by code_simp
  have l2: "js_add (loaded (frag_stats example_frag)) (loaded (part_stats (example_part 1000))) = Num 1000"
    and t2: "total (part_stats (example_part 1000)) = Num 1000" by code_simp+
  have f2: "js_is_finite (total (frag_stats (updateStatsFromPart example_frag (example_part 1000))))"
    by code_simp
  from updateStatsFromPart_division_by_zero[OF h1, of example_frag] z1
  have a: "\<not> js_is_finite (total (frag_stats (updateStatsFromPart example_frag (example_part 4000))))"
    by (simp add: Let_def)
  from updateStatsFromPart_division_by_zero[OF h2, of example_frag] l2 t2 f2
  have b: "\<exists>k. 1 \<le> k \<and>
      Math_round (js_div
        (js_add (loaded (frag_stats example_frag)) (loaded (part_stats (example_part 1000))))
        (total (part_stats (example_part 1000)))) = Num (of_int k)"
    by (simp add: Let_def)
  show ?thesis using h1 z1 a h2 f2 b by simp
qed


section \<open>Properties of \<open>load\<close>\<close>

lemma abort_returns: "slot_usable w \<Longrightarrow> abort w = Inr (afterAbort w)"
  by (cases "loader w") (simp_all add: slot_usable_def abort_def afterAbort_def)

lemma abort_throws: "\<not> slot_usable w \<Longrightarrow> abort w = Inl TypeError"
  by (cases "loader w") (simp_all add: slot_usable_def abort_def)

lemma load_returns:
  "slot_usable w \<Longrightarrow> load frag pl tbt op w = Inr (loadAfterAbort frag pl tbt op (afterAbort w))"
  by (simp add: load_def abort_returns)

lemma load_throws: "\<not> slot_usable w \<Longrightarrow> load frag pl tbt op w = Inl TypeError"
  by (simp add: load_def abort_throws)

lemma step_Load:
  "step w (Load frag pl tbt op) =
     (if slot_usable w then loadAfterAbort frag pl tbt op (afterAbort w)
      else w \<lparr> thrown := thrown w @ [TypeError] \<rparr>)"
  by (simp add: returned_def load_returns load_throws)

lemma step_Abort:
  "step w Abort =
     (if slot_usable w then afterAbort w else w \<lparr> thrown := thrown w @ [TypeError] \<rparr>)"
  by (simp add: returned_def abort_returns abort_throws)

lemma afterAbort_frame [simp]:
  "config (afterAbort w) = config w"
  "loader (afterAbort w) = loader w"
  "partLoadTimeout (afterAbort w) = partLoadTimeout w"
  "frags (afterAbort w) = frags w"
  "loaders (afterAbort w) = loaders w"
  "requests (afterAbort w) = requests w"
  "timers (afterAbort w) = timers w"
  "cleared (afterAbort w) = cleared w"
  "calls (afterAbort w) = calls w"
  "progress (afterAbort w) = progress w"
  "thrown (afterAbort w) = thrown w"
  by (simp_all add: afterAbort_def split: option.splits)

lemma aborts_afterAbort [simp]:
  "aborts (afterAbort w) = (case loader w of Some ld \<Rightarrow> aborts w @ [ld] | None \<Rightarrow> aborts w)"
  by (simp add: afterAbort_def split: option.splits)

lemma frag_start_installLoader [simp]:
  "frag_start (frags (installLoader frag w) f) = frag_start (frags w f)"
  by (simp add: installLoader_def Let_def)

lemma frag_url_installLoader [simp]:
  "frag_url (frags (installLoader frag w) f) = frag_url (frags w f)"
  by (simp add: installLoader_def Let_def)

text \<open>
  The branch of \<open>load\<close> for a hint fragment. When \<open>load\<close> is called with a part list
  and a progress callback, \<open>findIndependentPart\<close> returns \<open>-1\<close> and the fragment has no
  URL, while the loader's slot is empty or holds a transport that has been asked to load,
  \<open>load\<close> returns a promise that is resolved with \<open>null\<close>, and the transport is
  released: the fragment's loader reference and the loader's slot are cleared and
  \<open>clearTimeout\<close> is called on the watchdog handle. No request is issued and no timer is
  armed.
\<close>

lemma load_hint_resolves_null:
  assumes "slot_usable w"
      and "findIndependentPart partList frag
             (Math_max (frag_start (frags w frag)) (js_or_zero targetBufferTime)) = - 1"
      and "frag_url (frags w frag) = []"
  shows "\<exists>w'. load frag (Some partList) targetBufferTime True w = Inr w'
          \<and> length (calls w') = Suc (length (calls w))
          \<and> take (length (calls w)) (calls w') = calls w
          \<and> call_promise (calls w' ! length (calls w)) = Resolved None
          \<and> frag_loader (frags w' frag) = None
          \<and> loader w' = None
          \<and> cleared w' = cleared w @ [partLoadTimeout w]
          \<and> requests w' = requests w
          \<and> timers w' = timers w
          \<and> thrown w' = thrown w"
  using assms
  by (simp add: load_returns loadAfterAbort_def Let_def newPromise_def resetLoader_def
        installLoader_def)

lemma load_hint_resolves_null_example:
  "slot_usable (run example_world [Load 1 None None False])
   \<and> loader (run example_world [Load 1 None None False]) = Some 0
   \<and> findIndependentPart example_partList 7
        (Math_max (frag_start (frags (run example_world [Load 1 None None False]) 7))
           (js_or_zero None)) = - 1
   \<and> frag_url (frags (run example_world [Load 1 None None False]) 7) = []
   \<and> (\<exists>w'. load 7 (Some example_partList) None True (run example_world [Load 1 None None False])
              = Inr w'
          \<and> call_promise (calls w' ! 1) = Resolved None
          \<and> frag_loader (frags w' 7) = None
          \<and> loader w' = None
          \<and> cleared w' = [- 1]
          \<and> length (requests w') = 1)"
proof -
  let ?w = "run example_world [Load 1 None None False]"
  have h0: "slot_usable ?w" by code_simp
  have h1: "findIndependentPart example_partList 7
      (Math_max (frag_start (frags ?w 7)) (js_or_zero None)) = - 1"
    by code_simp
  have h2: "frag_url (frags ?w 7) = []" by code_simp
  have e: "length (calls ?w) = 1" "cleared ?w = []" "partLoadTimeout ?w = - 1"
      "length (requests ?w) = 1" "loader ?w = Some 0"
    by code_simp+
  from load_hint_resolves_null[OF h0 h1 h2]
  obtain w' where "load 7 (Some example_partList) None True ?w = Inr w'
      \<and> call_promise (calls w' ! 1) = Resolved None
      \<and> frag_loader (frags w' 7) = None
      \<and> loader w' = None
      \<and> cleared w' = [- 1]
      \<and> length (requests w') = 1"
    using e by auto
  then show ?thesis using h0 h1 h2 e by blast
qed


text \<open>
  C7, as stated, at a fragment without a URL loaded without a part list: \<open>load\<close> has
  constructed a transport.
\<close>

theorem load_without_url_constructs_transport:
  "frag_url (frags example_world 7) = []
   \<and> loaders example_world = []
   \<and> thrown (step example_world (Load 7 None None False)) = []
   \<and> length (calls (step example_world (Load 7 None None False))) = 1
   \<and> loaders (step example_world (Load 7 None None False)) = [DefaultILoader]"
  by code_simp

text \<open>
  C7, amended. When \<open>load\<close> is called with a fragment that has no URL, and without a part
  list or without a progress callback, while the loader's slot is empty or holds a transport
  that has been asked to load, the promise it returns is rejected at once with a load-error
  envelope and no request is issued: the transport that \<open>load\<close> constructs on entry is
  not asked to load.
\<close>

theorem load_without_url_rejects:
  assumes "slot_usable w"
      and "levelDetails_partList = None \<or> \<not> onProg"
      and "frag_url (frags w frag) = []"
  shows "\<exists>w'. load frag levelDetails_partList targetBufferTime onProg w = Inr w'
          \<and> length (calls w') = Suc (length (calls w))
          \<and> take (length (calls w)) (calls w') = calls w
          \<and> (\<exists>err. call_promise (calls w' ! length (calls w)) = Rejected (LoadErr err)
                \<and> err_type (data err) = NETWORK_ERROR
                \<and> err_details (data err) = FRAG_LOAD_ERROR
                \<and> \<not> err_fatal (data err)
                \<and> err_frag (data err) = frag
                \<and> err_networkDetails (data err) = Null)
          \<and> requests w' = requests w
          \<and> loaders w' = loaders w @ [if fLoader (config w) then FragmentILoader else DefaultILoader]
          \<and> thrown w' = thrown w"
  using assms
  by (auto simp: load_returns loadAfterAbort_def Let_def newPromise_def installLoader_def
        loadFragment_def loadError_def split: option.splits)

theorem load_without_url_rejects_witness:
  "slot_usable example_world
   \<and> frag_url (frags example_world 7) = []
   \<and> (\<exists>w'. load 7 None None False example_world = Inr w'
         \<and> (\<exists>err. call_promise (calls w' ! 0) = Rejected (LoadErr err)
               \<and> err_details (data err) = FRAG_LOAD_ERROR)
         \<and> requests w' = []
         \<and> loaders w' = [DefaultILoader])"
proof -
  have h0: "slot_usable example_world" by code_simp
  have h1: "None = (None :: Part list option) \<or> \<not> False" by simp
  have h2: "frag_url (frags example_world 7) = []" by code_simp
  have e: "calls example_world = []" "requests example_world = []" "loaders example_world = []"
    by (simp_all add: example_world_def new_FragmentLoader_def)
  from load_without_url_rejects[OF h0 h1 h2, of None]
  obtain w' where "load 7 None None False example_world = Inr w'
         \<and> (\<exists>err. call_promise (calls w' ! 0) = Rejected (LoadErr err)
               \<and> err_details (data err) = FRAG_LOAD_ERROR)
         \<and> requests w' = []
         \<and> loaders w' = [DefaultILoader]"
    using e by (auto simp: example_world_def new_FragmentLoader_def example_config_def)
  then show ?thesis using h0 h2 by blast
qed


section \<open>Properties of the part chain\<close>

text \<open>
  C2. When the part that just succeeded is the last entry of the whole part list (its list
  index is at least \<open>partList.length - 1\<close>), the promise of the chain is not resolved: the
  fragment's stats get \<open>aborted = true\<close>, the transport is released (the fragment's loader
  reference is cleared; the loader's slot and the watchdog are cleared when the slot still
  holds this transport), no further part is requested and the promise is rejected with an
  envelope whose details are internal-aborted and which carries the fragment and the part
  just loaded.
\<close>

theorem last_part_forces_abort:
  assumes "awaiting_part w rid c index part"
      and "int index \<ge> int (length (call_partList (calls w ! c))) - 1"
  shows "let cl = calls w ! c; frag = call_frag cl; loadedPart = part \<lparr> part_stats := stats \<rparr>;
             w' = onSuccess rid payload stats nd w
         in (\<exists>err. call_promise (calls w' ! c) = Rejected (LoadErr err)
                \<and> err_type (data err) = NETWORK_ERROR
                \<and> err_details (data err) = INTERNAL_ABORTED
                \<and> \<not> err_fatal (data err)
                \<and> err_frag (data err) = frag
                \<and> err_part (data err) = Some loadedPart
                \<and> err_networkDetails (data err) = nd)
          \<and> aborted (frag_stats (frags w' frag))
          \<and> frag_loader (frags w' frag) = None
          \<and> (loader w = Some (call_loader cl) \<longrightarrow>
                loader w' = None \<and> cleared w' = cleared w @ [partLoadTimeout w])
          \<and> length (requests w') = length (requests w)"
  using assms
  by (simp add: awaiting_part_def onSuccess_def partLoaded_def Let_def settleRequest_def
        resetLoader_def reject_def settle_def loadError_def)

lemma ctx_part_createLoaderContext [simp]:
  "ctx_part (createLoaderContext frag fragObj part) = part"
  by (simp add: createLoaderContext_def Let_def split: option.splits)

lemma findIndependentPart_less_length:
  "findIndependentPart pl frag t < int (length pl)"
proof (cases "candidates pl frag 0 (scanned pl t) = {}")
  case True
  then show ?thesis by (simp add: findIndependentPart_candidates)
next
  case False
  then have "Max (candidates pl frag 0 (scanned pl t)) \<in> candidates pl frag 0 (scanned pl t)"
    by (intro Max_in candidates_finite)
  then have "Max (candidates pl frag 0 (scanned pl t)) < scanned pl t"
    by (simp add: candidates_def)
  with scanned_le[of pl t] False show ?thesis
    by (simp add: findIndependentPart_candidates)
qed

lemma load_starts_chain:
  assumes "findIndependentPart pl frag
             (Math_max (frag_start (frags w frag)) (js_or_zero tbt)) = int s"
  shows "chain_at (loadAfterAbort frag (Some pl) tbt True (afterAbort w)) (length (calls w)) (length (requests w)) frag pl s []"
    and "timers (loadAfterAbort frag (Some pl) tbt True (afterAbort w)) = timers w @
           [\<lparr> timer_delay = fragLoadingTimeOut (config w), timer_call = length (calls w), timer_fired = False \<rparr>]"
    and "cleared (loadAfterAbort frag (Some pl) tbt True (afterAbort w)) = cleared w"
    and "partLoadTimeout (loadAfterAbort frag (Some pl) tbt True (afterAbort w)) = int (length (timers w)) + 1"
    and "call_loader (calls (loadAfterAbort frag (Some pl) tbt True (afterAbort w)) ! length (calls w)) = length (loaders w)"
    and "call_partIndex (calls (loadAfterAbort frag (Some pl) tbt True (afterAbort w)) ! length (calls w)) = s"
proof -
  have s: "s < length pl" using findIndependentPart_less_length[of pl frag "Math_max (frag_start (frags w frag)) (js_or_zero tbt)"] assms by simp
  show "chain_at (loadAfterAbort frag (Some pl) tbt True (afterAbort w)) (length (calls w)) (length (requests w)) frag pl s []"
    using assms s
    by (simp add: loadAfterAbort_def Let_def loadFragmentParts_def loadPartIndex_def loadPart_def chain_at_def awaiting_part_def
        installLoader_def)
  show "timers (loadAfterAbort frag (Some pl) tbt True (afterAbort w)) = timers w @
           [\<lparr> timer_delay = fragLoadingTimeOut (config w), timer_call = length (calls w), timer_fired = False \<rparr>]"
    using assms s
    by (simp add: loadAfterAbort_def Let_def loadFragmentParts_def loadPartIndex_def loadPart_def
        installLoader_def)
  show "cleared (loadAfterAbort frag (Some pl) tbt True (afterAbort w)) = cleared w"
    using assms s
    by (simp add: loadAfterAbort_def Let_def loadFragmentParts_def loadPartIndex_def loadPart_def
        installLoader_def)
  show "partLoadTimeout (loadAfterAbort frag (Some pl) tbt True (afterAbort w)) = int (length (timers w)) + 1"
    using assms s
    by (simp add: loadAfterAbort_def Let_def loadFragmentParts_def loadPartIndex_def loadPart_def
        installLoader_def)
  show "call_loader (calls (loadAfterAbort frag (Some pl) tbt True (afterAbort w)) ! length (calls w)) = length (loaders w)"
    using assms s
    by (simp add: loadAfterAbort_def Let_def loadFragmentParts_def loadPartIndex_def loadPart_def
        installLoader_def)
  show "call_partIndex (calls (loadAfterAbort frag (Some pl) tbt True (afterAbort w)) ! length (calls w)) = s"
    using assms s
    by (simp add: loadAfterAbort_def Let_def loadFragmentParts_def loadPartIndex_def loadPart_def
        installLoader_def)
qed

lemma success_continues:
  assumes "chain_at w c rid frag pl i acc"
      and "Suc i < length pl" and "part_fragment (pl ! Suc i) = frag"
  shows "chain_at (onSuccess rid d st nd w) c (Suc rid) frag pl (Suc i)
           (AList.update (part_index (pl ! i))
              \<lparr> fld_frag = frag, fld_part = Some ((pl ! i) \<lparr> part_stats := st \<rparr>),
                fld_payload = d, fld_networkDetails = nd \<rparr> acc)"
    and "timers (onSuccess rid d st nd w) = timers w"
    and "cleared (onSuccess rid d st nd w) = cleared w"
    and "partLoadTimeout (onSuccess rid d st nd w) = partLoadTimeout w"
    and "call_loader (calls (onSuccess rid d st nd w) ! c) = call_loader (calls w ! c)"
    and "call_partIndex (calls (onSuccess rid d st nd w) ! c) = call_partIndex (calls w ! c)"
  using assms
  by (simp_all add: chain_at_def awaiting_part_def onSuccess_def partLoaded_def Let_def settleRequest_def
        loadPartIndex_def loadPart_def nth_append)

lemma success_at_boundary:
  assumes "chain_at w c rid frag pl i acc"
      and "Suc i < length pl" and "part_fragment (pl ! Suc i) \<noteq> frag"
  shows "call_promise (calls (onSuccess rid d st nd w) ! c) =
           Resolved (Some \<lparr> fled_frag = frag, fled_partsLoaded = Some [],
             fled_byIndex = AList.update (part_index (pl ! i))
              \<lparr> fld_frag = frag, fld_part = Some ((pl ! i) \<lparr> part_stats := st \<rparr>),
                fld_payload = d, fld_networkDetails = nd \<rparr> acc \<rparr>)"
    and "frag_loader (frags (onSuccess rid d st nd w) frag) = None"
    and "loader (onSuccess rid d st nd w) = None"
    and "cleared (onSuccess rid d st nd w) = cleared w @ [partLoadTimeout w]"
    and "requests (onSuccess rid d st nd w) = (requests w)[rid := (requests w ! rid)\<lparr> req_settled := True \<rparr>]"
  using assms
  by (simp_all add: chain_at_def awaiting_part_def onSuccess_def partLoaded_def Let_def settleRequest_def
        resetLoader_def resolve_def settle_def)


lemma run_snoc: "run w (evs @ [e]) = step (run w evs) e"
  by (simp add: run_def)

lemma run_Cons: "run w (e # evs) = run (step w e) evs"
  by (simp add: run_def)

lemma run_Nil: "run w [] = w"
  by (simp add: run_def)

lemma part_successes_Suc:
  "part_successes r0 s (Suc n) p st nd =
     part_successes r0 s n p st nd @ [OnSuccess (r0 + n) (p (s + n)) (st (s + n)) (nd (s + n))]"
  by (simp add: part_successes_def)

lemma collected_snoc:
  "collected frag pl p st nd (ks @ [k]) =
     AList.update (part_index (pl ! k)) (partResult frag pl p st nd k) (collected frag pl p st nd ks)"
  by (simp add: collected_def)

lemma chain_run:
  assumes "chain_at w c r0 frag pl s []"
  shows "s + n < length pl \<Longrightarrow> (\<forall>k. s < k \<and> k \<le> s + n \<longrightarrow> part_fragment (pl ! k) = frag) \<Longrightarrow>
     (let w' = run w (part_successes r0 s n p st nd)
      in chain_at w' c (r0 + n) frag pl (s + n) (collected frag pl p st nd [s..<s + n])
       \<and> timers w' = timers w \<and> cleared w' = cleared w \<and> partLoadTimeout w' = partLoadTimeout w
       \<and> call_loader (calls w' ! c) = call_loader (calls w ! c)
       \<and> call_partIndex (calls w' ! c) = call_partIndex (calls w ! c))"
proof (induction n)
  case 0
  with assms show ?case by (simp add: part_successes_def run_Nil collected_def)
next
  case (Suc n)
  let ?w = "run w (part_successes r0 s n p st nd)"
  from Suc have ih: "chain_at ?w c (r0 + n) frag pl (s + n) (collected frag pl p st nd [s..<s + n])"
    and fr: "timers ?w = timers w" "cleared ?w = cleared w" "partLoadTimeout ?w = partLoadTimeout w"
      "call_loader (calls ?w ! c) = call_loader (calls w ! c)"
      "call_partIndex (calls ?w ! c) = call_partIndex (calls w ! c)"
    by (simp_all add: Let_def)
  have nx: "Suc (s + n) < length pl" "part_fragment (pl ! Suc (s + n)) = frag"
    using Suc.prems by simp_all
  note sc = success_continues[OF ih nx, of "p (s + n)" "st (s + n)" "nd (s + n)"]
  have up: "[s..<s + Suc n] = [s..<s + n] @ [s + n]" by simp
  show ?case
    unfolding Let_def part_successes_Suc run_snoc step.simps up collected_snoc partResult_def
    using sc fr by simp
qed

lemma map_of_collected:
  "s \<le> k \<Longrightarrow> k < m \<Longrightarrow> (\<forall>k'. k < k' \<and> k' < m \<longrightarrow> part_index (pl ! k') \<noteq> part_index (pl ! k)) \<Longrightarrow>
   map_of (collected frag pl p st nd [s..<m]) (part_index (pl ! k)) = Some (partResult frag pl p st nd k)"
proof (induction m)
  case 0
  then show ?case by simp
next
  case (Suc m)
  have up: "[s..<Suc m] = [s..<m] @ [m]" using Suc.prems by simp
  show ?case
  proof (cases "k = m")
    case True
    then show ?thesis unfolding up collected_snoc by (simp add: update_conv')
  next
    case False
    with Suc.prems have km: "k < m" by simp
    with Suc.prems(3) have "part_index (pl ! m) \<noteq> part_index (pl ! k)" by blast
    then have ne: "part_index (pl ! k) \<noteq> part_index (pl ! m)" by (rule not_sym)
    from Suc.prems km have "\<forall>k'. k < k' \<and> k' < m \<longrightarrow> part_index (pl ! k') \<noteq> part_index (pl ! k)"
      by simp
    with Suc.IH[OF Suc.prems(1) km] ne show ?thesis
      unfolding up collected_snoc by (simp add: update_conv')
  qed
qed

lemma dom_collected:
  "dom (map_of (collected frag pl p st nd [s..<m])) = (\<lambda>k. part_index (pl ! k)) ` {s..<m}"
proof (induction m)
  case 0
  then show ?case by (simp add: collected_def)
next
  case (Suc m)
  show ?case
  proof (cases "s \<le> m")
    case True
    then have up: "[s..<Suc m] = [s..<m] @ [m]" by simp
    have "{s..<Suc m} = insert m {s..<m}" using True by auto
    with Suc show ?thesis
      unfolding up collected_snoc dom_map_of_conv_image_fst dom_update by simp
  next
    case False
    then show ?thesis by (simp add: collected_def)
  qed
qed

text \<open>
  C1. \<open>load\<close> is called while the loader's slot is empty or holds a transport that has
  been asked to load (otherwise \<open>load\<close> throws and no chain begins). When the parts
  from the starting index \<open>s\<close> through \<open>i\<close> complete successfully
  (each next part up to \<open>i\<close> being owned by the fragment) and the entry \<open>i + 1\<close> exists
  but is owned by a different fragment, the chain ends successfully: the transport is
  released (the fragment's loader reference and the loader's slot are cleared, the watchdog
  is cleared) and the promise is resolved with the accumulated object, which references the
  fragment and holds, under the index of each part loaded from \<open>s\<close> through \<open>i\<close>, the
  result \<open>{frag, part, payload, networkDetails}\<close> of that part, and nothing else. (A part
  whose \<open>index\<close> were carried again by a later part of the chain would be overwritten by
  it; the indices of the parts of one fragment are distinct.)
\<close>

theorem chain_resolves_at_fragment_boundary:
  assumes usable: "slot_usable w"
      and start: "findIndependentPart pl frag
             (Math_max (frag_start (frags w frag)) (js_or_zero tbt)) = int s"
      and si: "s \<le> i" and nx: "Suc i < length pl"
      and same: "\<forall>k. s < k \<and> k \<le> i \<longrightarrow> part_fragment (pl ! k) = frag"
      and other: "part_fragment (pl ! Suc i) \<noteq> frag"
  shows "let c = length (calls w);
             w' = run w (Load frag (Some pl) tbt True #
                         part_successes (length (requests w)) s (Suc (i - s)) payload stats nd)
         in \<exists>res. call_promise (calls w' ! c) = Resolved (Some res)
              \<and> fled_frag res = frag
              \<and> (\<forall>k. s \<le> k \<and> k \<le> i
                      \<and> (\<forall>k'. k < k' \<and> k' \<le> i \<longrightarrow> part_index (pl ! k') \<noteq> part_index (pl ! k))
                    \<longrightarrow> map_of (fled_byIndex res) (part_index (pl ! k)) =
                          Some (partResult frag pl payload stats nd k))
              \<and> dom (map_of (fled_byIndex res)) = (\<lambda>k. part_index (pl ! k)) ` {s..i}
              \<and> frag_loader (frags w' frag) = None
              \<and> loader w' = None
              \<and> cleared w' = cleared w @ [int (length (timers w)) + 1]"
proof -
  let ?c = "length (calls w)" and ?r0 = "length (requests w)"
  let ?w0 = "loadAfterAbort frag (Some pl) tbt True (afterAbort w)"
  let ?n = "i - s"
  let ?w1 = "run ?w0 (part_successes ?r0 s ?n payload stats nd)"
  note ld = load_starts_chain[OF start]
  have a: "s + ?n < length pl" using si nx by simp
  have b: "\<forall>k. s < k \<and> k \<le> s + ?n \<longrightarrow> part_fragment (pl ! k) = frag" using si same by simp
  from chain_run[OF ld(1) a b, of payload stats nd]
  have ch: "chain_at ?w1 ?c (?r0 + ?n) frag pl i (collected frag pl payload stats nd [s..<i])"
    and fr: "cleared ?w1 = cleared ?w0" "partLoadTimeout ?w1 = partLoadTimeout ?w0"
    using si by (simp_all add: Let_def)
  let ?e = "OnSuccess (?r0 + ?n) (payload i) (stats i) (nd i)"
  let ?w2 = "step ?w1 ?e"
  let ?acc = "collected frag pl payload stats nd [s..<Suc i]"
  have up: "[s..<Suc i] = [s..<i] @ [i]" using si by simp
  note bd = success_at_boundary[OF ch nx other, of "payload i" "stats i" "nd i"]
  have w2: "run w (Load frag (Some pl) tbt True # part_successes ?r0 s (Suc ?n) payload stats nd) = ?w2"
    using si usable by (simp add: run_Cons part_successes_Suc run_snoc step_Load del: step.simps)
  have p: "call_promise (calls ?w2 ! ?c) =
      Resolved (Some \<lparr> fled_frag = frag, fled_partsLoaded = Some [], fled_byIndex = ?acc \<rparr>)"
    using bd(1) unfolding up collected_snoc partResult_def by simp
  have m: "\<forall>k. s \<le> k \<and> k \<le> i
         \<and> (\<forall>k'. k < k' \<and> k' \<le> i \<longrightarrow> part_index (pl ! k') \<noteq> part_index (pl ! k))
       \<longrightarrow> map_of ?acc (part_index (pl ! k)) = Some (partResult frag pl payload stats nd k)"
    using map_of_collected[of s _ "Suc i" pl frag payload stats nd] by (simp add: less_Suc_eq_le)
  have d: "dom (map_of ?acc) = (\<lambda>k. part_index (pl ! k)) ` {s..i}"
    using dom_collected[of frag pl payload stats nd s "Suc i"] by (simp add: atLeastLessThanSuc_atLeastAtMost)
  have r: "frag_loader (frags ?w2 frag) = None" "loader ?w2 = None"
      "cleared ?w2 = cleared w @ [int (length (timers w)) + 1]"
    using bd(2,3,4) fr ld(3,4) by simp_all
  show ?thesis
    unfolding Let_def w2 using p m d r by simp
qed

theorem chain_resolves_at_fragment_boundary_witness:
  "slot_usable example_world
   \<and> findIndependentPart example_partList 1
      (Math_max (frag_start (frags example_world 1)) (js_or_zero None)) = int 0
   \<and> (0::nat) \<le> 2 \<and> Suc 2 < length example_partList
   \<and> part_fragment (example_partList ! 1) = 1
   \<and> part_fragment (example_partList ! 2) = 1
   \<and> part_fragment (example_partList ! Suc 2) \<noteq> 1
   \<and> (\<exists>res. call_promise (calls (run example_world
          [Load 1 (Some example_partList) None True,
           OnSuccess 0 [10] example_stats (Details 0),
           OnSuccess 1 [11] example_stats (Details 1),
           OnSuccess 2 [12] example_stats (Details 2)]) ! 0) = Resolved (Some res)
        \<and> map_of (fled_byIndex res) 0 =
            Some \<lparr> fld_frag = 1, fld_part = Some ((example_partList ! 0) \<lparr> part_stats := example_stats \<rparr>),
                   fld_payload = [10], fld_networkDetails = Details 0 \<rparr>
        \<and> map_of (fled_byIndex res) 1 =
            Some \<lparr> fld_frag = 1, fld_part = Some ((example_partList ! 1) \<lparr> part_stats := example_stats \<rparr>),
                   fld_payload = [11], fld_networkDetails = Details 1 \<rparr>
        \<and> map_of (fled_byIndex res) 2 =
            Some \<lparr> fld_frag = 1, fld_part = Some ((example_partList ! 2) \<lparr> part_stats := example_stats \<rparr>),
                   fld_payload = [12], fld_networkDetails = Details 2 \<rparr>
        \<and> dom (map_of (fled_byIndex res)) = {0, 1, 2})"
proof -
  have h0: "slot_usable example_world" by code_simp
  have h1: "findIndependentPart example_partList 1
      (Math_max (frag_start (frags example_world 1)) (js_or_zero None)) = int 0"
    by code_simp
  have h2: "(0::nat) \<le> 2" by simp
  have h3: "Suc 2 < length example_partList" by (simp add: example_partList_def)
  have pf: "part_fragment (example_partList ! 1) = 1" "part_fragment (example_partList ! 2) = 1"
    by (simp_all add: example_partList_def mkPart_def)
  have h4: "\<forall>k. 0 < k \<and> k \<le> 2 \<longrightarrow> part_fragment (example_partList ! k) = 1"
  proof (intro allI impI)
    fix k :: nat assume "0 < k \<and> k \<le> 2"
    then have "k = 1 \<or> k = 2" by auto
    with pf show "part_fragment (example_partList ! k) = 1" by auto
  qed
  have h5: "part_fragment (example_partList ! Suc 2) \<noteq> 1"
    by (simp add: example_partList_def mkPart_def)
  have ix: "part_index (example_partList ! 0) = 0" "part_index (example_partList ! 1) = 1"
      "part_index (example_partList ! 2) = 2"
    by (simp_all add: example_partList_def mkPart_def)
  have ev: "part_successes (length (requests example_world)) 0 (Suc (2 - 0))
        (\<lambda>k. [10 + k]) (\<lambda>k. example_stats) Details =
      [OnSuccess 0 [10] example_stats (Details 0), OnSuccess 1 [11] example_stats (Details 1),
       OnSuccess 2 [12] example_stats (Details 2)]"
    by (simp add: part_successes_def example_world_def new_FragmentLoader_def upt_conv_Cons)
  from chain_resolves_at_fragment_boundary[OF h0 h1 h2 h3 h4 h5, of "\<lambda>k. [10 + k]" "\<lambda>k. example_stats" Details]
  obtain res where res: "call_promise (calls (run example_world
          [Load 1 (Some example_partList) None True,
           OnSuccess 0 [10] example_stats (Details 0),
           OnSuccess 1 [11] example_stats (Details 1),
           OnSuccess 2 [12] example_stats (Details 2)]) ! 0) = Resolved (Some res)"
    and mp: "\<forall>k. 0 \<le> k \<and> k \<le> 2
                      \<and> (\<forall>k'. k < k' \<and> k' \<le> 2 \<longrightarrow> part_index (example_partList ! k') \<noteq> part_index (example_partList ! k))
                    \<longrightarrow> map_of (fled_byIndex res) (part_index (example_partList ! k)) =
                          Some (partResult 1 example_partList (\<lambda>k. [10 + k]) (\<lambda>k. example_stats) Details k)"
    and dm: "dom (map_of (fled_byIndex res)) = (\<lambda>k. part_index (example_partList ! k)) ` {0..2}"
    unfolding Let_def ev by (auto simp: example_world_def new_FragmentLoader_def)
  have dist: "\<forall>k'. k < k' \<and> k' \<le> 2 \<longrightarrow> part_index (example_partList ! k') \<noteq> part_index (example_partList ! k)"
    if "k \<le> 2" for k
  proof (intro allI impI)
    fix k' assume a: "k < k' \<and> k' \<le> 2"
    then have "(k = 0 \<and> (k' = 1 \<or> k' = 2)) \<or> (k = 1 \<and> k' = 2)" by auto
    with ix show "part_index (example_partList ! k') \<noteq> part_index (example_partList ! k)" by auto
  qed
  have m0: "map_of (fled_byIndex res) 0 = Some (partResult 1 example_partList (\<lambda>k. [10 + k]) (\<lambda>k. example_stats) Details 0)"
    using mp[rule_format, of 0] dist[of 0] ix by simp
  have m1: "map_of (fled_byIndex res) 1 = Some (partResult 1 example_partList (\<lambda>k. [10 + k]) (\<lambda>k. example_stats) Details 1)"
    using mp[rule_format, of 1] dist[of 1] ix by simp
  have m2: "map_of (fled_byIndex res) 2 = Some (partResult 1 example_partList (\<lambda>k. [10 + k]) (\<lambda>k. example_stats) Details 2)"
    using mp[rule_format, of 2] dist[of 2] ix by simp
  have d2: "{0..2::nat} = {0, 1, 2}" by auto
  have dm': "dom (map_of (fled_byIndex res)) = {0, 1, 2}"
    using dm ix unfolding d2 by simp
  show ?thesis
    using h0 h1 h2 h3 pf h5 res m0 m1 m2 dm' by (auto simp: partResult_def)
qed

theorem last_part_forces_abort_witness:
  "awaiting_part (step example_world (Load 2 (Some example_partList) None True)) 0 0 3 (example_partList ! 3)
   \<and> int 3 \<ge> int (length (call_partList
         (calls (step example_world (Load 2 (Some example_partList) None True)) ! 0))) - 1
   \<and> (\<exists>err. call_promise (calls (onSuccess 0 [1] example_stats (Details 0)
           (step example_world (Load 2 (Some example_partList) None True))) ! 0) = Rejected (LoadErr err)
         \<and> err_details (data err) = INTERNAL_ABORTED
         \<and> err_frag (data err) = 2
         \<and> err_part (data err) = Some ((example_partList ! 3) \<lparr> part_stats := example_stats \<rparr>))
   \<and> aborted (frag_stats (frags (onSuccess 0 [1] example_stats (Details 0)
         (step example_world (Load 2 (Some example_partList) None True))) 2))
   \<and> loader (onSuccess 0 [1] example_stats (Details 0)
         (step example_world (Load 2 (Some example_partList) None True))) = None"
proof -
  let ?w = "step example_world (Load 2 (Some example_partList) None True)"
  have h1: "awaiting_part ?w 0 0 3 (example_partList ! 3)" by code_simp
  have h2: "int 3 \<ge> int (length (call_partList (calls ?w ! 0))) - 1" by code_simp
  have f: "call_frag (calls ?w ! 0) = 2" by code_simp
  have l: "loader ?w = Some (call_loader (calls ?w ! 0))" by code_simp
  show ?thesis
    using last_part_forces_abort[OF h1 h2, where payload = "[1]" and stats = example_stats
        and nd = "Details 0"] h1 h2 f l
    by (auto simp: Let_def)
qed


section \<open>The effect of the elementary operations on each field\<close>

lemma settle_frame [simp]:
  "config (settle c p w) = config w"
  "loader (settle c p w) = loader w"
  "partLoadTimeout (settle c p w) = partLoadTimeout w"
  "frags (settle c p w) = frags w"
  "loaders (settle c p w) = loaders w"
  "aborts (settle c p w) = aborts w"
  "requests (settle c p w) = requests w"
  "timers (settle c p w) = timers w"
  "cleared (settle c p w) = cleared w"
  "progress (settle c p w) = progress w"
  "thrown (settle c p w) = thrown w"
  by (simp_all add: settle_def split: option.splits)

lemma resetLoader_frame [simp]:
  "config (resetLoader frag ld w) = config w"
  "partLoadTimeout (resetLoader frag ld w) = partLoadTimeout w"
  "loaders (resetLoader frag ld w) = loaders w"
  "aborts (resetLoader frag ld w) = aborts w"
  "requests (resetLoader frag ld w) = requests w"
  "timers (resetLoader frag ld w) = timers w"
  "calls (resetLoader frag ld w) = calls w"
  "progress (resetLoader frag ld w) = progress w"
  "thrown (resetLoader frag ld w) = thrown w"
  by (simp_all add: resetLoader_def Let_def split: option.splits)

lemma settleRequest_frame [simp]:
  "config (settleRequest rid w) = config w"
  "loader (settleRequest rid w) = loader w"
  "partLoadTimeout (settleRequest rid w) = partLoadTimeout w"
  "frags (settleRequest rid w) = frags w"
  "loaders (settleRequest rid w) = loaders w"
  "aborts (settleRequest rid w) = aborts w"
  "timers (settleRequest rid w) = timers w"
  "cleared (settleRequest rid w) = cleared w"
  "calls (settleRequest rid w) = calls w"
  "progress (settleRequest rid w) = progress w"
  "thrown (settleRequest rid w) = thrown w"
  by (simp_all add: settleRequest_def split: option.splits)

lemma loadPart_frame [simp]:
  "config (loadPart c part index w) = config w"
  "loader (loadPart c part index w) = loader w"
  "partLoadTimeout (loadPart c part index w) = partLoadTimeout w"
  "frags (loadPart c part index w) = frags w"
  "loaders (loadPart c part index w) = loaders w"
  "aborts (loadPart c part index w) = aborts w"
  "timers (loadPart c part index w) = timers w"
  "cleared (loadPart c part index w) = cleared w"
  "calls (loadPart c part index w) = calls w"
  "progress (loadPart c part index w) = progress w"
  "thrown (loadPart c part index w) = thrown w"
  by (simp_all add: loadPart_def Let_def split: option.splits)

lemma newPromise_frame [simp]:
  "config (newPromise frag ld cfg op p w) = config w"
  "loader (newPromise frag ld cfg op p w) = loader w"
  "partLoadTimeout (newPromise frag ld cfg op p w) = partLoadTimeout w"
  "frags (newPromise frag ld cfg op p w) = frags w"
  "loaders (newPromise frag ld cfg op p w) = loaders w"
  "aborts (newPromise frag ld cfg op p w) = aborts w"
  "requests (newPromise frag ld cfg op p w) = requests w"
  "timers (newPromise frag ld cfg op p w) = timers w"
  "cleared (newPromise frag ld cfg op p w) = cleared w"
  "progress (newPromise frag ld cfg op p w) = progress w"
  "thrown (newPromise frag ld cfg op p w) = thrown w"
  by (simp_all add: newPromise_def split: option.splits)

lemma installLoader_frame [simp]:
  "config (installLoader frag w) = config w"
  "partLoadTimeout (installLoader frag w) = partLoadTimeout w"
  "requests (installLoader frag w) = requests w"
  "timers (installLoader frag w) = timers w"
  "cleared (installLoader frag w) = cleared w"
  "calls (installLoader frag w) = calls w"
  "progress (installLoader frag w) = progress w"
  "thrown (installLoader frag w) = thrown w"
  by (simp_all add: installLoader_def Let_def split: option.splits)

lemma calls_settle:
  "calls (settle c p w) =
     (if c < length (calls w) \<and> call_promise (calls w ! c) = Pending
      then (calls w)[c := (calls w ! c) \<lparr> call_promise := p \<rparr>] else calls w)"
  by (simp add: settle_def)

lemma calls_newPromise [simp]:
  "calls (newPromise frag ld cfg op p w) = calls w @
     [\<lparr> call_frag = frag, call_loader = ld, call_loaderConfig = cfg,
        call_onProgress = op, call_partList = [], call_partIndex = 0,
        call_fragLoadedEndData = \<lparr> fled_frag = frag, fled_partsLoaded = None, fled_byIndex = [] \<rparr>,
        call_promise = p \<rparr>]"
  by (simp add: newPromise_def)

lemma loader_resetLoader [simp]:
  "loader (resetLoader frag ld w) = (if loader w = Some ld then None else loader w)"
  by (simp add: resetLoader_def Let_def)

lemma cleared_resetLoader [simp]:
  "cleared (resetLoader frag ld w) =
     (if loader w = Some ld then cleared w @ [partLoadTimeout w] else cleared w)"
  by (simp add: resetLoader_def Let_def)

lemma frags_resetLoader [simp]:
  "frags (resetLoader frag ld w) = (frags w)(frag := (frags w frag) \<lparr> frag_loader := None \<rparr>)"
  by (simp add: resetLoader_def Let_def)

lemma requests_settleRequest [simp]:
  "requests (settleRequest rid w) = (requests w)[rid := (requests w ! rid) \<lparr> req_settled := True \<rparr>]"
  by (simp add: settleRequest_def)

lemma requests_loadPart [simp]:
  "requests (loadPart c part index w) = requests w @
     [\<lparr> req_loader = call_loader (calls w ! c),
        req_context = createLoaderContext (call_frag (calls w ! c)) (frags w (call_frag (calls w ! c))) (Some part),
        req_config = call_loaderConfig (calls w ! c),
        req_call = c, req_index = index, req_settled = False \<rparr>]"
  by (simp add: loadPart_def Let_def)

lemma installLoader_fields [simp]:
  "loaders (installLoader frag w) = loaders w @ [if fLoader (config w) then FragmentILoader else DefaultILoader]"
  "loader (installLoader frag w) = Some (length (loaders w))"
  "frags (installLoader frag w) = (frags w)(frag := (frags w frag) \<lparr> frag_loader := Some (length (loaders w)) \<rparr>)"
  "aborts (installLoader frag w) = aborts w"
  by (simp_all add: installLoader_def Let_def)



section \<open>The error envelope\<close>

lemma envelope_ok_loadError [simp]:
  "envelope_ok (loadError details frag part resp nd msg) =
     (details \<in> {FRAG_LOAD_ERROR, FRAG_LOAD_TIMEOUT, INTERNAL_ABORTED})"
  by (simp add: loadError_def)

lemma calls_ok_append [simp]: "calls_ok (cs @ [cl]) = (calls_ok cs \<and> promise_ok (call_promise cl))"
  by (auto simp: calls_ok_def)

lemma calls_ok_update:
  "calls_ok cs \<Longrightarrow> promise_ok (call_promise cl) \<Longrightarrow> calls_ok (cs[c := cl])"
  unfolding calls_ok_def by (auto dest!: set_update_subset_insert[THEN subsetD])

lemma calls_ok_nth: "calls_ok cs \<Longrightarrow> c < length cs \<Longrightarrow> promise_ok (call_promise (cs ! c))"
  by (simp add: calls_ok_def)

lemma calls_ok_update_field:
  "calls_ok cs \<Longrightarrow> call_promise cl = call_promise (cs ! c) \<Longrightarrow> calls_ok (cs[c := cl])"
  by (cases "c < length cs") (simp_all add: calls_ok_update calls_ok_nth list_update_beyond not_less)

lemma rejections_ok_settle [simp]:
  "rejections_ok w \<Longrightarrow> promise_ok p \<Longrightarrow> rejections_ok (settle c p w)"
  by (simp add: rejections_ok_def calls_settle calls_ok_update)

lemma rejections_ok_frame:
  "calls w' = calls w \<Longrightarrow> rejections_ok w \<Longrightarrow> rejections_ok w'"
  by (simp add: rejections_ok_def)

lemma rejections_ok_loadPartIndex:
  "rejections_ok w \<Longrightarrow> index < length (call_partList (calls w ! c)) \<Longrightarrow> rejections_ok (loadPartIndex c index w)"
  by (simp add: loadPartIndex_def Let_def rejections_ok_def)

lemma calls_loadPartIndex_in_range:
  "index < length (call_partList (calls w ! c)) \<Longrightarrow> calls (loadPartIndex c index w) = calls w"
  by (simp add: loadPartIndex_def Let_def)

lemma call_partList_update_acc:
  "call_partList ((cs[c := (cs ! c) \<lparr> call_fragLoadedEndData := x \<rparr>]) ! c) = call_partList (cs ! c)"
  by (cases "c < length cs") (simp_all add: list_update_beyond not_less)

lemma rejections_ok_partLoaded:
  assumes "rejections_ok w"
  shows "rejections_ok (partLoaded c index part pld w)"
  using assms
  by (simp add: partLoaded_def Let_def rejections_ok_def reject_def resolve_def calls_settle
        calls_ok_update calls_ok_update_field calls_loadPartIndex_in_range call_partList_update_acc)


lemma rejections_ok_rejectRequest:
  "rejections_ok w \<Longrightarrow> envelope_ok e \<Longrightarrow> rejections_ok (rejectRequest rid e w)"
  by (simp add: rejectRequest_def Let_def rejections_ok_def reject_def calls_settle calls_ok_update
        split: option.splits)

lemma rejections_ok_onSuccess:
  "rejections_ok w \<Longrightarrow> rejections_ok (onSuccess rid d st nd w)"
  by (auto simp: onSuccess_def Let_def resolve_def rejections_ok_def calls_settle calls_ok_update
        intro!: rejections_ok_partLoaded[unfolded rejections_ok_def] split: option.splits)

lemma rejections_ok_onError:
  "rejections_ok w \<Longrightarrow> rejections_ok (onError rid resp st nd w)"
  by (simp add: onError_def Let_def rejections_ok_rejectRequest rejections_ok_frame[of "resetLoader _ _ _"])

lemma rejections_ok_onAbort:
  "rejections_ok w \<Longrightarrow> rejections_ok (onAbort rid st nd w)"
  by (auto simp: onAbort_def Let_def intro!: rejections_ok_rejectRequest
        intro: rejections_ok_frame[rotated] split: option.splits)

lemma rejections_ok_onTimeout:
  "rejections_ok w \<Longrightarrow> rejections_ok (onTimeout rid st nd w)"
  by (simp add: onTimeout_def Let_def rejections_ok_rejectRequest rejections_ok_frame[of "resetLoader _ _ _"])

lemma rejections_ok_onProgress:
  "rejections_ok w \<Longrightarrow> rejections_ok (onProgress rid d nd w)"
  by (simp add: onProgress_def Let_def rejections_ok_def split: option.splits)

lemma rejections_ok_onPartLoadTimeout:
  "rejections_ok w \<Longrightarrow> rejections_ok (onPartLoadTimeout h st w)"
  by (simp add: onPartLoadTimeout_def Let_def rejections_ok_def reject_def calls_settle calls_ok_update)

lemma rejections_ok_loadFragment:
  "rejections_ok w \<Longrightarrow> rejections_ok (loadFragment frag ld cfg op w)"
  by (simp add: loadFragment_def Let_def rejections_ok_def)

lemma rejections_ok_loadFragmentParts:
  "rejections_ok w \<Longrightarrow> partIndex < length partList \<Longrightarrow>
   rejections_ok (loadFragmentParts partList partIndex frag ld cfg w)"
  by (simp add: loadFragmentParts_def Let_def rejections_ok_def calls_loadPartIndex_in_range)


lemma rejections_ok_loadAfterAbort:
  assumes "rejections_ok w"
  shows "rejections_ok (loadAfterAbort frag pl tbt op w)"
proof -
  have w2: "rejections_ok (installLoader frag w)"
    using assms by (simp add: rejections_ok_def)
  have r: "rejections_ok (newPromise frag ld cfg b (Resolved None) (resetLoader frag ld (installLoader frag w)))"
    for ld cfg b
    using assms by (simp add: rejections_ok_def)
  have p: "rejections_ok (loadFragmentParts partList (nat (findIndependentPart partList frag t)) frag ld cfg
             (installLoader frag w))"
    if "findIndependentPart partList frag t > - 1" for partList t ld cfg
    using that findIndependentPart_less_length[of partList frag t] w2
    by (intro rejections_ok_loadFragmentParts) simp_all
  show ?thesis
    unfolding loadAfterAbort_def Let_def
    using w2 r p by (simp add: rejections_ok_loadFragment split: option.splits)
qed

lemma rejections_ok_step: "rejections_ok w \<Longrightarrow> rejections_ok (step w e)"
proof (cases e)
  case (Load frag pl tbt op)
  assume "rejections_ok w"
  then have "rejections_ok (afterAbort w)" by (simp add: rejections_ok_def)
  then have "rejections_ok (loadAfterAbort frag pl tbt op (afterAbort w))"
    by (rule rejections_ok_loadAfterAbort)
  with \<open>rejections_ok w\<close> show ?thesis
    unfolding Load step_Load by (simp add: rejections_ok_def)
next
  case Abort
  assume "rejections_ok w"
  then show ?thesis unfolding Abort step_Abort by (simp add: rejections_ok_def)
qed (simp_all add: rejections_ok_onSuccess rejections_ok_onError
        rejections_ok_onAbort rejections_ok_onTimeout rejections_ok_onProgress
        rejections_ok_onPartLoadTimeout)

lemma rejections_ok_run: "rejections_ok w \<Longrightarrow> rejections_ok (run w evs)"
  unfolding run_def by (induction evs arbitrary: w) (simp_all add: rejections_ok_step del: step.simps)

lemma rejections_ok_new: "rejections_ok (new_FragmentLoader cfg store)"
  by (simp add: rejections_ok_def calls_ok_def new_FragmentLoader_def)

lemma length_calls_settle [simp]: "length (calls (settle c p w)) = length (calls w)"
  by (simp add: calls_settle)

lemma length_calls_loadPartIndex [simp]: "length (calls (loadPartIndex c index w)) = length (calls w)"
  by (simp add: loadPartIndex_def Let_def reject_def)

text \<open>
  The promises that \<open>load\<close> returned: whatever the events, one that is rejected holds a
  \<open>LoadError\<close> whose type is the network-error category, whose details are load-error,
  load-timeout or internal-aborted and whose \<open>fatal\<close> is false; the \<open>TypeError\<close> of a
  part index out of range never arises.
\<close>

lemma rejected_promises_carry_the_envelope:
  assumes "cl \<in> set (calls (run (new_FragmentLoader cfg store) evs))"
      and "call_promise cl = Rejected e"
  shows "\<exists>err. e = LoadErr err
            \<and> err_type (data err) = NETWORK_ERROR
            \<and> err_details (data err) \<in> {FRAG_LOAD_ERROR, FRAG_LOAD_TIMEOUT, INTERNAL_ABORTED}
            \<and> \<not> err_fatal (data err)"
proof -
  have ok: "rejections_ok (run (new_FragmentLoader cfg store) evs)"
    by (intro rejections_ok_run rejections_ok_new)
  with assms have "envelope_ok e" by (auto simp: rejections_ok_def calls_ok_def)
  then show ?thesis by (cases e) auto
qed

lemma reachable_run:
  "reachable w \<Longrightarrow> admissible_run w evs \<Longrightarrow> reachable (run w evs)"
proof (induction evs arbitrary: w)
  case Nil
  then show ?case by (simp add: run_Nil)
next
  case (Cons e evs)
  from Cons.prems have "reachable (step w e)" by (auto intro: reachable_step)
  with Cons.IH[of "step w e"] Cons.prems show ?case by (simp add: run_Cons del: step.simps)
qed

text \<open>
  C9, at the run in which a fragment without a URL is loaded and \<open>load\<close> is called again.
  The first call returns a promise rejected with the load-error envelope, issues no request
  and leaves its transport in the loader's slot. The second call is not answered with a
  promise: \<open>abort\<close>, and with it \<open>load\<close>, throws a \<open>TypeError\<close> at the caller; no
  promise is created and the loader stays as it was.
\<close>

theorem load_after_load_without_url_throws:
  "reachable after_no_url_load
   \<and> call_promise (calls after_no_url_load ! 0) =
       Rejected (loadError FRAG_LOAD_ERROR 7 None None Null ''Fragment does not have a url'')
   \<and> length (calls after_no_url_load) = 1
   \<and> loader after_no_url_load = Some 0
   \<and> requests after_no_url_load = []
   \<and> thrown after_no_url_load = []
   \<and> abort after_no_url_load = Inl TypeError
   \<and> load 1 None None False after_no_url_load = Inl TypeError
   \<and> thrown (step after_no_url_load (Load 1 None None False)) = [TypeError]
   \<and> calls (step after_no_url_load (Load 1 None None False)) = calls after_no_url_load"
proof -
  have r: "reachable after_no_url_load"
    unfolding after_no_url_load_def example_world_def
    by (intro reachable_run reachable_new) simp
  have p: "call_promise (calls after_no_url_load ! 0) =
       Rejected (loadError FRAG_LOAD_ERROR 7 None None Null ''Fragment does not have a url'')"
    by code_simp
  have n: "length (calls after_no_url_load) = 1" by code_simp
  have l: "loader after_no_url_load = Some 0" by code_simp
  have q: "requests after_no_url_load = []" by code_simp
  have t: "thrown after_no_url_load = []" by code_simp
  have u: "\<not> slot_usable after_no_url_load" by code_simp
  have a: "abort after_no_url_load = Inl TypeError" using u by (rule abort_throws)
  have b: "load 1 None None False after_no_url_load = Inl TypeError"
    using u by (rule load_throws)
  have s: "thrown (step after_no_url_load (Load 1 None None False)) = [TypeError]"
    using u t by (simp add: step_Load del: step.simps)
  have c: "calls (step after_no_url_load (Load 1 None None False)) = calls after_no_url_load"
    using u by (simp add: step_Load del: step.simps)
  show ?thesis using r p n l q t a b s c by blast
qed


section \<open>What the callbacks leave as it is\<close>

lemma map_update_same: "f x = f (xs ! i) \<Longrightarrow> map f (xs[i := x]) = map f xs"
  by (induction xs arbitrary: i) (auto split: nat.splits)

lemma image_update_same: "f x = f (xs ! i) \<Longrightarrow> f ` set (xs[i := x]) = f ` set xs"
  using map_update_same[of f x xs i] by (metis set_map)

lemma call_loaders_settle [simp]: "map call_loader (calls (settle c p w)) = map call_loader (calls w)"
  by (simp add: calls_settle map_update_same)

lemma call_loaders_loadPartIndex [simp]:
  "map call_loader (calls (loadPartIndex c i w)) = map call_loader (calls w)"
  by (simp add: loadPartIndex_def Let_def reject_def)

lemma requests_loadPartIndex [simp]: "requests (loadPartIndex c i w) =
   (if i < length (call_partList (calls w ! c)) then requests (loadPart c (call_partList (calls w ! c) ! i) i w) else requests w)"
  by (simp add: loadPartIndex_def Let_def reject_def)

lemma loadPartIndex_frame [simp]:
  "timers (loadPartIndex c i w) = timers w"
  "cleared (loadPartIndex c i w) = cleared w"
  "partLoadTimeout (loadPartIndex c i w) = partLoadTimeout w"
  "loaders (loadPartIndex c i w) = loaders w"
  "loader (loadPartIndex c i w) = loader w"
  "aborts (loadPartIndex c i w) = aborts w"
  "frags (loadPartIndex c i w) = frags w"
  "thrown (loadPartIndex c i w) = thrown w"
  by (simp_all add: loadPartIndex_def Let_def reject_def)

lemma callback_frame_partLoaded:
  "c \<in> set (map req_call (requests w)) \<Longrightarrow> callback_frame w (partLoaded c i part pld w)"
  by (auto simp: callback_frame_def partLoaded_def Let_def reject_def resolve_def map_update_same image_update_same call_partList_update_acc)

lemma callback_frame_rejectRequest:
  "callback_frame w (rejectRequest rid e w)"
  by (auto simp: callback_frame_def rejectRequest_def Let_def reject_def map_update_same image_update_same split: option.splits)


lemma callback_frame_refl: "callback_frame w w"
  by (auto simp: callback_frame_def)

lemma callback_frame_trans:
  "callback_frame a b \<Longrightarrow> callback_frame b c \<Longrightarrow> callback_frame a c"
  unfolding callback_frame_def by (simp del: set_map) blast

lemma callback_frame_resetLoader: "callback_frame w (resetLoader frag ld w)"
  by (auto simp: callback_frame_def)

lemma callback_frame_settleRequest: "callback_frame w (settleRequest rid w)"
  by (auto simp: callback_frame_def map_update_same image_update_same)

lemma callback_frame_frags: "callback_frame w (w \<lparr> frags := x \<rparr>)"
  by (auto simp: callback_frame_def)

lemma callback_frame_frags_progress: "callback_frame w (w \<lparr> frags := x, progress := y \<rparr>)"
  by (auto simp: callback_frame_def)

lemma callback_frame_settle: "callback_frame w (settle c p w)"
  by (auto simp: callback_frame_def)

lemma callback_frame_onSuccess: "callback_frame w (onSuccess rid d st nd w)"
proof (cases "rid < length (requests w)")
  case False
  then show ?thesis by (simp add: onSuccess_def callback_frame_refl)
next
  case True
  then have m: "req_call (requests w ! rid) \<in> set (map req_call (requests w))" by simp
  show ?thesis
  proof (cases "ctx_part (req_context (requests w ! rid))")
    case None
    with True show ?thesis
      by (auto simp: onSuccess_def Let_def resolve_def
          intro: callback_frame_trans[OF callback_frame_resetLoader callback_frame_settle])
  next
    case (Some p)
    let ?w1 = "w \<lparr> frags := (frags w)(call_frag (calls w ! req_call (requests w ! rid))
        := updateStatsFromPart (frags w (call_frag (calls w ! req_call (requests w ! rid)))) (p \<lparr> part_stats := st \<rparr>)),
        progress := progress w @ [\<lparr> fld_frag = call_frag (calls w ! req_call (requests w ! rid)),
           fld_part = Some (p \<lparr> part_stats := st \<rparr>), fld_payload = d, fld_networkDetails = nd \<rparr>] \<rparr>"
    let ?w2 = "settleRequest rid ?w1"
    have f1: "callback_frame w ?w1" by (rule callback_frame_frags_progress)
    have f2: "callback_frame ?w1 ?w2" by (rule callback_frame_settleRequest)
    have "req_call (requests w ! rid) \<in> set (map req_call (requests ?w2))"
      using True by (simp add: image_update_same)
    from callback_frame_partLoaded[OF this]
    have f3: "callback_frame ?w2 (partLoaded (req_call (requests w ! rid)) i part pld ?w2)" for i part pld .
    show ?thesis using True Some f1 callback_frame_trans[OF callback_frame_trans[OF f1 f2] f3]
      by (simp add: onSuccess_def Let_def)
  qed
qed

lemma callback_frame_onError: "callback_frame w (onError rid resp st nd w)"
  by (auto simp: onError_def Let_def callback_frame_refl
      intro: callback_frame_trans[OF callback_frame_resetLoader callback_frame_rejectRequest])

lemma callback_frame_onTimeout: "callback_frame w (onTimeout rid st nd w)"
  by (auto simp: onTimeout_def Let_def callback_frame_refl
      intro: callback_frame_trans[OF callback_frame_resetLoader callback_frame_rejectRequest])

lemma callback_frame_onAbort: "callback_frame w (onAbort rid st nd w)"
  by (auto simp: onAbort_def Let_def callback_frame_refl split: option.splits
      intro: callback_frame_trans[OF callback_frame_resetLoader callback_frame_rejectRequest]
        callback_frame_trans[OF callback_frame_frags
          callback_frame_trans[OF callback_frame_resetLoader callback_frame_rejectRequest]])

lemma callback_frame_onProgress: "callback_frame w (onProgress rid d nd w)"
  by (auto simp: onProgress_def Let_def callback_frame_def split: option.splits)

lemma callback_frame_afterAbort: "callback_frame w (afterAbort w)"
  by (auto simp: callback_frame_def)

lemma callback_frame_thrown: "callback_frame w (w \<lparr> thrown := x \<rparr>)"
  by (auto simp: callback_frame_def)

lemma callback_frame_onPartLoadTimeout: "callback_frame w (onPartLoadTimeout h st w)"
proof (cases "timer_armed h w")
  case False
  then show ?thesis by (simp add: onPartLoadTimeout_def callback_frame_refl)
next
  case True
  have f1: "callback_frame w (w \<lparr> timers := (timers w)[i := (timers w ! i) \<lparr> timer_fired := True \<rparr>] \<rparr>)" for i
    by (auto simp: callback_frame_def map_update_same)
  show ?thesis using True
    by (auto simp: onPartLoadTimeout_def Let_def reject_def
        intro!: callback_frame_trans[OF f1 callback_frame_trans[OF callback_frame_resetLoader callback_frame_settle]])
qed

lemma wf_world_callback:
  assumes "wf_world w" "callback_frame w w'"
  shows "wf_world w'"
proof -
  from assms(2) have cl: "map call_loader (calls w') = map call_loader (calls w)"
    and rq: "set (map req_call (requests w')) \<subseteq> set (map req_call (requests w))"
    and tc: "map timer_call (timers w') = map timer_call (timers w)"
    and pt: "partLoadTimeout w' = partLoadTimeout w"
    and cd: "set (cleared w') \<subseteq> insert (partLoadTimeout w) (set (cleared w))"
    and ls: "loaders w' = loaders w"
    by (simp_all add: callback_frame_def)
  from cl have lc: "length (calls w') = length (calls w)" by (metis length_map)
  from tc have lt: "length (timers w') = length (timers w)" by (metis length_map)
  from cl have sc: "call_loader ` set (calls w') = call_loader ` set (calls w)" by (metis set_map)
  from tc have st: "timer_call ` set (timers w') = timer_call ` set (timers w)" by (metis set_map)
  show ?thesis
    unfolding wf_world_def
  proof (intro conjI ballI)
    fix r assume "r \<in> set (requests w')"
    then have "req_call r \<in> set (map req_call (requests w))" using rq by auto
    with assms(1) show "req_call r < length (calls w')" by (auto simp: wf_world_def lc)
  next
    fix t assume "t \<in> set (timers w')"
    then have "timer_call t \<in> timer_call ` set (timers w)" using st by auto
    with assms(1) show "timer_call t < length (calls w')" by (auto simp: wf_world_def lc)
  next
    fix cl assume "cl \<in> set (calls w')"
    then have "call_loader cl \<in> call_loader ` set (calls w)" using sc by auto
    with assms(1) show "call_loader cl < length (loaders w')" by (auto simp: wf_world_def ls)
  next
    show "sorted_wrt (<) (map call_loader (calls w'))" using assms(1) by (simp add: cl wf_world_def)
  next
    show "partLoadTimeout w' \<le> int (length (timers w'))" using assms(1) by (simp add: pt lt wf_world_def)
  next
    fix h assume "h \<in> set (cleared w')"
    with cd have "h = partLoadTimeout w \<or> h \<in> set (cleared w)" by auto
    with assms(1) show "h \<le> int (length (timers w'))" by (auto simp: lt wf_world_def)
  qed
qed

lemma load_effect:
  "map call_loader (calls (loadAfterAbort frag pl tbt op w)) = map call_loader (calls w) @ [length (loaders w)]"
  "loaders (loadAfterAbort frag pl tbt op w) =
     loaders w @ [if fLoader (config w) then FragmentILoader else DefaultILoader]"
  "set (map req_call (requests (loadAfterAbort frag pl tbt op w)))
     \<subseteq> insert (length (calls w)) (set (map req_call (requests w)))"
  "(map timer_call (timers (loadAfterAbort frag pl tbt op w)) = map timer_call (timers w)
      \<and> partLoadTimeout (loadAfterAbort frag pl tbt op w) = partLoadTimeout w)
   \<or> (map timer_call (timers (loadAfterAbort frag pl tbt op w)) = map timer_call (timers w) @ [length (calls w)]
      \<and> partLoadTimeout (loadAfterAbort frag pl tbt op w) = int (length (timers w)) + 1)"
  "set (cleared (loadAfterAbort frag pl tbt op w)) \<subseteq> insert (partLoadTimeout w) (set (cleared w))"
  "aborts (loadAfterAbort frag pl tbt op w) = aborts w"
  by (auto simp: loadAfterAbort_def Let_def loadFragmentParts_def loadFragment_def split: option.splits)

lemma wf_world_loadAfterAbort:
  assumes "wf_world w"
  shows "wf_world (loadAfterAbort frag pl tbt op w)"
proof -
  let ?w = "loadAfterAbort frag pl tbt op w"
  note e = load_effect[of frag pl tbt op w]
  from e(1) have lc: "length (calls ?w) = Suc (length (calls w))" by (metis length_map length_append_singleton)
  from e(1) have sc: "call_loader ` set (calls ?w) = insert (length (loaders w)) (call_loader ` set (calls w))"
    by (metis set_map set_append list.simps(15) Un_insert_right sup_bot.right_neutral empty_set)
  have lt: "length (timers w) \<le> length (timers ?w)
       \<and> partLoadTimeout ?w \<le> int (length (timers ?w))
       \<and> timer_call ` set (timers ?w) \<subseteq> insert (length (calls w)) (timer_call ` set (timers w))"
  proof -
    from e(4) consider
        (same) "map timer_call (timers ?w) = map timer_call (timers w)"
               "partLoadTimeout ?w = partLoadTimeout w"
      | (armed) "map timer_call (timers ?w) = map timer_call (timers w) @ [length (calls w)]"
               "partLoadTimeout ?w = int (length (timers w)) + 1"
      by blast
    then show ?thesis
    proof cases
      case same
      from same(1) have "length (timers ?w) = length (timers w)" by (metis length_map)
      moreover from same(1) have "timer_call ` set (timers ?w) = timer_call ` set (timers w)"
        by (metis set_map)
      ultimately show ?thesis using same(2) assms by (auto simp: wf_world_def)
    next
      case armed
      from armed(1) have "length (timers ?w) = Suc (length (timers w))"
        by (metis length_map length_append_singleton)
      moreover from armed(1)
      have "timer_call ` set (timers ?w) = insert (length (calls w)) (timer_call ` set (timers w))"
        by (metis set_map set_append list.simps(15) Un_insert_right sup_bot.right_neutral empty_set)
      ultimately show ?thesis using armed(2) by auto
    qed
  qed
  show ?thesis
    unfolding wf_world_def
  proof (intro conjI ballI)
    fix r assume "r \<in> set (requests ?w)"
    then have "req_call r \<in> insert (length (calls w)) (set (map req_call (requests w)))" using e(3) by auto
    with assms show "req_call r < length (calls ?w)" by (auto simp: wf_world_def lc less_Suc_eq)
  next
    fix t assume "t \<in> set (timers ?w)"
    then have "timer_call t \<in> insert (length (calls w)) (timer_call ` set (timers w))" using lt by auto
    with assms show "timer_call t < length (calls ?w)" by (auto simp: wf_world_def lc less_Suc_eq)
  next
    fix cl assume "cl \<in> set (calls ?w)"
    then have "call_loader cl \<in> insert (length (loaders w)) (call_loader ` set (calls w))" using sc by auto
    with assms show "call_loader cl < length (loaders ?w)" by (auto simp: wf_world_def e(2) less_Suc_eq)
  next
    show "sorted_wrt (<) (map call_loader (calls ?w))"
      using assms by (auto simp: e(1) wf_world_def sorted_wrt_append)
  next
    show "partLoadTimeout ?w \<le> int (length (timers ?w))" using lt by blast
  next
    fix h assume "h \<in> set (cleared ?w)"
    with e(5) have "h = partLoadTimeout w \<or> h \<in> set (cleared w)" by auto
    with assms lt show "h \<le> int (length (timers ?w))" by (auto simp: wf_world_def)
  qed
qed

lemma wf_world_new: "wf_world (new_FragmentLoader cfg store)"
  by (simp add: wf_world_def new_FragmentLoader_def)

lemma callback_frame_step:
  "\<not> is_Load e \<Longrightarrow> callback_frame w (step w e)"
proof (cases e)
  case Abort
  show ?thesis unfolding Abort step_Abort
    by (simp add: callback_frame_afterAbort callback_frame_thrown)
qed (simp_all add: callback_frame_onSuccess callback_frame_onError callback_frame_onAbort
        callback_frame_onTimeout callback_frame_onProgress callback_frame_onPartLoadTimeout)

lemma wf_world_step: "wf_world w \<Longrightarrow> wf_world (step w e)"
proof (cases "is_Load e")
  case True
  assume wf: "wf_world w"
  from True obtain frag pl tbt op where e: "e = Load frag pl tbt op" by (cases e) simp_all
  have "wf_world (afterAbort w)"
    using wf callback_frame_afterAbort by (rule wf_world_callback)
  then have a: "wf_world (loadAfterAbort frag pl tbt op (afterAbort w))"
    by (rule wf_world_loadAfterAbort)
  have b: "wf_world (w \<lparr> thrown := thrown w @ [TypeError] \<rparr>)"
    using wf callback_frame_thrown by (rule wf_world_callback)
  show "wf_world (step w e)" unfolding e step_Load using a b by simp
next
  case False
  then have "callback_frame w (step w e)" by (rule callback_frame_step)
  then show "wf_world w \<Longrightarrow> wf_world (step w e)" by (rule wf_world_callback[rotated])
qed

lemma reachable_wf_world: "reachable w \<Longrightarrow> wf_world w"
  by (induction rule: reachable.induct) (simp_all add: wf_world_new wf_world_step del: step.simps)


section \<open>The watchdog of the chain\<close>

lemma timer_armed_fresh:
  assumes "wf_world w" "timers w1 = timers w @ [t]" "\<not> timer_fired t" "cleared w1 = cleared w"
  shows "timer_armed (int (length (timers w)) + 1) w1"
proof -
  have "int (length (timers w)) + 1 \<notin> set (cleared w)"
    using assms(1) by (auto simp: wf_world_def)
  moreover have "nat (int (length (timers w)) + 1) - 1 = length (timers w)" by simp
  ultimately show ?thesis using assms(2,3,4)
    by (simp add: timer_armed_def nat_add_distrib)
qed

lemma watchdog_fires:
  assumes "timer_armed h w" and "timer_call (timers w ! (nat h - 1)) = c"
      and "c < length (calls w)" and "call_promise (calls w ! c) = Pending"
      and "call_frag (calls w ! c) = frag" and "call_loader (calls w ! c) = ld"
      and "loader w = Some ld"
      and "call_partList (calls w ! c) = pl" and "call_partIndex (calls w ! c) = s"
      and "s < length pl"
  shows "call_promise (calls (onPartLoadTimeout h st w) ! c) =
           Rejected (loadError FRAG_LOAD_TIMEOUT frag (Some ((pl ! s) \<lparr> part_stats := st \<rparr>)) None
                       (LoaderField ld) [])"
    and "frag_loader (frags (onPartLoadTimeout h st w) frag) = None"
    and "loader (onPartLoadTimeout h st w) = None"
    and "aborts (onPartLoadTimeout h st w) = aborts w"
  using assms
  by (simp_all add: onPartLoadTimeout_def Let_def reject_def calls_settle)

text \<open>
  C4. \<open>load\<close> is called while the loader's slot is empty or holds a transport that has
  been asked to load (otherwise \<open>load\<close> throws and no chain begins). When the chain
  begins, \<open>load\<close> arms one watchdog with the configured
  \<open>fragLoadingTimeOut\<close>. It is neither re-armed nor cleared between the part requests:
  after any number of parts of the chain have succeeded, the timers are those from before the
  call plus this one, still armed, under the same handle, and no callback of the transport
  ever arms a timer or changes the handle. If the watchdog fires while the chain is
  pending, however many parts have completed, the transport is detached (the fragment's
  loader reference and the loader's slot are cleared; \<open>abort\<close> is not called on it) and
  the promise is rejected with a load-timeout envelope carrying the fragment and the part the
  chain started at, with the stats it has when the timer fires. Time itself is not modelled:
  the firing of the timer is an event.
\<close>

theorem watchdog_spans_the_chain:
  assumes reach: "reachable w"
      and usable: "slot_usable w"
      and start: "findIndependentPart pl frag
             (Math_max (frag_start (frags w frag)) (js_or_zero tbt)) = int s"
      and more: "s + n < length pl"
      and same: "\<forall>k. s < k \<and> k \<le> s + n \<longrightarrow> part_fragment (pl ! k) = frag"
  shows "let c = length (calls w); h = int (length (timers w)) + 1; ld = length (loaders w);
             w1 = run w (Load frag (Some pl) tbt True #
                         part_successes (length (requests w)) s n payload stats nd);
             w2 = step w1 (TimerFires h startStats)
         in timers w1 = timers w @
              [\<lparr> timer_delay = fragLoadingTimeOut (config w), timer_call = c, timer_fired = False \<rparr>]
          \<and> partLoadTimeout w1 = h \<and> cleared w1 = cleared w \<and> timer_armed h w1
          \<and> call_promise (calls w1 ! c) = Pending
          \<and> (\<exists>err. call_promise (calls w2 ! c) = Rejected (LoadErr err)
                \<and> err_type (data err) = NETWORK_ERROR
                \<and> err_details (data err) = FRAG_LOAD_TIMEOUT
                \<and> \<not> err_fatal (data err)
                \<and> err_frag (data err) = frag
                \<and> err_part (data err) = Some ((pl ! s) \<lparr> part_stats := startStats \<rparr>)
                \<and> err_networkDetails (data err) = LoaderField ld)
          \<and> frag_loader (frags w2 frag) = None \<and> loader w2 = None \<and> aborts w2 = aborts w1
          \<and> (\<forall>w' e. \<not> is_Load e \<longrightarrow>
                map timer_delay (timers (step w' e)) = map timer_delay (timers w')
                \<and> partLoadTimeout (step w' e) = partLoadTimeout w')"
proof -
  let ?c = "length (calls w)" and ?r0 = "length (requests w)"
  let ?h = "int (length (timers w)) + 1"
  let ?t = "\<lparr> timer_delay = fragLoadingTimeOut (config w), timer_call = ?c, timer_fired = False \<rparr>"
  let ?w0 = "loadAfterAbort frag (Some pl) tbt True (afterAbort w)"
  let ?w1 = "run ?w0 (part_successes ?r0 s n payload stats nd)"
  note ld = load_starts_chain[OF start]
  from chain_run[OF ld(1) more same, of payload stats nd]
  have ch: "chain_at ?w1 ?c (?r0 + n) frag pl (s + n) (collected frag pl payload stats nd [s..<s + n])"
    and fr: "timers ?w1 = timers ?w0" "cleared ?w1 = cleared ?w0" "partLoadTimeout ?w1 = partLoadTimeout ?w0"
      "call_loader (calls ?w1 ! ?c) = call_loader (calls ?w0 ! ?c)"
      "call_partIndex (calls ?w1 ! ?c) = call_partIndex (calls ?w0 ! ?c)"
    by (simp_all add: Let_def)
  have w1: "run w (Load frag (Some pl) tbt True # part_successes ?r0 s n payload stats nd) = ?w1"
    using usable by (simp add: run_Cons step_Load del: step.simps)
  have t1: "timers ?w1 = timers w @ [?t]" using fr(1) ld(2) by simp
  have c1: "cleared ?w1 = cleared w" using fr(2) ld(3) by simp
  have p1: "partLoadTimeout ?w1 = ?h" using fr(3) ld(4) by simp
  have armed: "timer_armed ?h ?w1"
    by (rule timer_armed_fresh[OF reachable_wf_world[OF reach] t1 _ c1]) simp
  have sl: "s < length pl" using more by simp
  from ch have pend: "call_promise (calls ?w1 ! ?c) = Pending"
    and cf: "call_frag (calls ?w1 ! ?c) = frag" and cp: "call_partList (calls ?w1 ! ?c) = pl"
    and cl: "?c < length (calls ?w1)" and lo: "loader ?w1 = Some (call_loader (calls ?w1 ! ?c))"
    by (simp_all add: chain_at_def awaiting_part_def)
  have cld: "call_loader (calls ?w1 ! ?c) = length (loaders w)" using fr(4) ld(5) by simp
  have cpi: "call_partIndex (calls ?w1 ! ?c) = s" using fr(5) ld(6) by simp
  have tc: "timer_call (timers ?w1 ! (nat ?h - 1)) = ?c" by (simp add: t1 nat_add_distrib)
  let ?w2 = "onPartLoadTimeout ?h startStats ?w1"
  note r = watchdog_fires[OF armed tc cl pend cf cld lo[unfolded cld] cp cpi sl, of startStats]
  have g: "map timer_delay (timers (step w' e)) = map timer_delay (timers w')
           \<and> partLoadTimeout (step w' e) = partLoadTimeout w'" if "\<not> is_Load e" for w' e
    using callback_frame_step[OF that, of w'] by (simp add: callback_frame_def del: step.simps)
  have st: "step ?w1 (TimerFires ?h startStats) = ?w2" by simp
  show ?thesis
    unfolding Let_def w1 st
    using t1 p1 c1 armed pend r g by (simp add: loadError_def del: step.simps)
qed


theorem watchdog_spans_the_chain_witness:
  "reachable example_world
   \<and> slot_usable example_world
   \<and> findIndependentPart example_partList 1
        (Math_max (frag_start (frags example_world 1)) (js_or_zero None)) = int 0
   \<and> 0 + 2 < length example_partList
   \<and> part_fragment (example_partList ! 1) = 1
   \<and> part_fragment (example_partList ! 2) = 1
   \<and> timers (run example_world
         [Load 1 (Some example_partList) None True,
          OnSuccess 0 [10] example_stats (Details 0),
          OnSuccess 1 [11] example_stats (Details 1)])
       = [\<lparr> timer_delay = Num 5000, timer_call = 0, timer_fired = False \<rparr>]
   \<and> cleared (run example_world
         [Load 1 (Some example_partList) None True,
          OnSuccess 0 [10] example_stats (Details 0),
          OnSuccess 1 [11] example_stats (Details 1)]) = []
   \<and> (\<exists>err. call_promise (calls (run example_world
          [Load 1 (Some example_partList) None True,
           OnSuccess 0 [10] example_stats (Details 0),
           OnSuccess 1 [11] example_stats (Details 1),
           TimerFires 1 example_stats]) ! 0) = Rejected (LoadErr err)
        \<and> err_details (data err) = FRAG_LOAD_TIMEOUT
        \<and> err_part (data err) = Some ((example_partList ! 0) \<lparr> part_stats := example_stats \<rparr>))
   \<and> loader (run example_world
          [Load 1 (Some example_partList) None True,
           OnSuccess 0 [10] example_stats (Details 0),
           OnSuccess 1 [11] example_stats (Details 1),
           TimerFires 1 example_stats]) = None"
proof -
  let ?evs = "[Load 1 (Some example_partList) None True,
          OnSuccess 0 [10] example_stats (Details 0),
          OnSuccess 1 [11] example_stats (Details 1)]"
  have h0: "reachable example_world"
    unfolding example_world_def by (rule reachable_new)
  have hu: "slot_usable example_world" by code_simp
  have h1: "findIndependentPart example_partList 1
      (Math_max (frag_start (frags example_world 1)) (js_or_zero None)) = int 0"
    by code_simp
  have h2: "0 + 2 < length example_partList" by (simp add: example_partList_def)
  have pf: "part_fragment (example_partList ! 1) = 1" "part_fragment (example_partList ! 2) = 1"
    by (simp_all add: example_partList_def mkPart_def)
  have h3: "\<forall>k. 0 < k \<and> k \<le> 0 + 2 \<longrightarrow> part_fragment (example_partList ! k) = 1"
  proof (intro allI impI)
    fix k :: nat assume "0 < k \<and> k \<le> 0 + 2"
    then have "k = 1 \<or> k = 2" by auto
    with pf show "part_fragment (example_partList ! k) = 1" by auto
  qed
  have e: "calls example_world = []" "cleared example_world = []" "timers example_world = []"
      "requests example_world = []" "config example_world = example_config"
    by (simp_all add: example_world_def new_FragmentLoader_def)
  have ev: "Load 1 (Some example_partList) None True #
      part_successes (length (requests example_world)) 0 2 (\<lambda>k. [10 + k]) (\<lambda>k. example_stats) Details
      = ?evs"
    by (simp add: part_successes_def e upt_conv_Cons)
  have sn: "step (run example_world ?evs) (TimerFires 1 example_stats)
      = run example_world (?evs @ [TimerFires 1 example_stats])"
    by (simp only: run_snoc)
  have hd: "int (length (timers example_world)) + 1 = 1" by (simp add: e)
  note th = watchdog_spans_the_chain[OF h0 hu h1 h2 h3, where payload = "\<lambda>k. [10 + k]"
      and stats = "\<lambda>k. example_stats" and nd = Details and startStats = example_stats,
      unfolded Let_def ev hd]
  from th have a: "timers (run example_world ?evs) =
      [\<lparr> timer_delay = Num 5000, timer_call = 0, timer_fired = False \<rparr>]"
    and b: "cleared (run example_world ?evs) = []"
    by (simp_all add: e example_config_def del: step.simps)
  from th obtain err where
    c: "call_promise (calls (step (run example_world ?evs) (TimerFires 1 example_stats)) ! 0) = Rejected (LoadErr err)"
      "err_details (data err) = FRAG_LOAD_TIMEOUT"
      "err_part (data err) = Some ((example_partList ! 0) \<lparr> part_stats := example_stats \<rparr>)"
    by (auto simp: e simp del: step.simps)
  from th have d: "loader (step (run example_world ?evs) (TimerFires 1 example_stats)) = None"
    by (simp del: step.simps)
  show ?thesis
    using h0 hu h1 h2 pf a b c d unfolding sn by auto
qed


section \<open>Single flight\<close>

text \<open>
  C5, at the run in which the chain of fragment 1 is started, its watchdog fires, the chain
  of fragment 2 is started and the transport of the first chain then delivers its part. The
  watchdog rejects the first promise and empties the loader's slot without calling
  \<open>abort\<close> on the transport, so the \<open>abort()\<close> at the head of the second \<open>load\<close> finds no
  transport to abort. When the second chain has begun, both transports have a request
  that is not answered; when the first transport answers, its chain goes on and asks it for
  the next part. No exception was thrown and \<open>loader.abort()\<close> was never called: two
  transports are loading at once, the second in the loader's slot, the first known to the
  loader no more.
\<close>

theorem detached_chain_keeps_loading:
  "reachable (run example_world detached_chain_run)
   \<and> map req_loader (requests (run example_world (butlast detached_chain_run))) = [0, 1]
   \<and> map req_settled (requests (run example_world (butlast detached_chain_run))) = [False, False]
   \<and> aborts (run example_world (butlast detached_chain_run)) = []
   \<and> loaders (run example_world detached_chain_run) = [DefaultILoader, DefaultILoader]
   \<and> map req_loader (requests (run example_world detached_chain_run)) = [0, 1, 0]
   \<and> map req_index (requests (run example_world detached_chain_run)) = [0, 3, 1]
   \<and> map req_settled (requests (run example_world detached_chain_run)) = [True, False, False]
   \<and> aborts (run example_world detached_chain_run) = []
   \<and> thrown (run example_world detached_chain_run) = []
   \<and> loader (run example_world detached_chain_run) = Some 1
   \<and> map call_promise (calls (run example_world detached_chain_run)) =
       [Rejected (loadError FRAG_LOAD_TIMEOUT 1
          (Some ((example_partList ! 0) \<lparr> part_stats := stats0 \<rparr>)) None (LoaderField 0) []),
        Pending]"
proof -
  let ?w = "run example_world detached_chain_run"
  let ?v = "run example_world (butlast detached_chain_run)"
  have a: "admissible_run example_world detached_chain_run" by code_simp
  have r: "reachable ?w"
    using a unfolding example_world_def by (intro reachable_run reachable_new)
  have v1: "map req_loader (requests ?v) = [0, 1]" by code_simp
  have v2: "map req_settled (requests ?v) = [False, False]" by code_simp
  have v3: "aborts ?v = []" by code_simp
  have w1: "loaders ?w = [DefaultILoader, DefaultILoader]" by code_simp
  have w2: "map req_loader (requests ?w) = [0, 1, 0]" by code_simp
  have w3: "map req_index (requests ?w) = [0, 3, 1]" by code_simp
  have w4: "map req_settled (requests ?w) = [True, False, False]" by code_simp
  have w5: "aborts ?w = []" by code_simp
  have w6: "thrown ?w = []" by code_simp
  have w7: "loader ?w = Some 1" by code_simp
  have w8: "map call_promise (calls ?w) =
       [Rejected (loadError FRAG_LOAD_TIMEOUT 1
          (Some ((example_partList ! 0) \<lparr> part_stats := stats0 \<rparr>)) None (LoaderField 0) []),
        Pending]"
    by code_simp
  show ?thesis using r v1 v2 v3 w1 w2 w3 w4 w5 w6 w7 w8 by blast
qed

end
